theory Spec2Isabelle
  imports Main
begin

section \<open>Python values used by massrun\_TALYS.py\<close>

text \<open>
  The script \<^verbatim>\<open>Scripts/massrun_TALYS.py\<close> loads two spreadsheet tables, names and
  creates a run directory and writes a TALYS input file. Every exception the script can
  meet is a value of \<open>error\<close>; a call either returns or raises.
\<close>

datatype error =
    KeyError | IndexError | ValueError | OverflowError
  | FileExistsError | FileNotFoundError | NotADirectoryError | IsADirectoryError
  | PermissionError

datatype outcome = Returned | Raised error

text \<open>
  A Python float. \<open>Finite neg m e\<close> is the number \<^verbatim>\<open>m * 2 ** e\<close>, negated when \<open>neg\<close>
  holds; every IEEE double that is not an infinity or a NaN has this form (with
  \<^verbatim>\<open>m < 2 ** 53\<close>), and the sign is kept apart because Python prints the sign of a
  negative zero.
\<close>

datatype pyfloat = Finite bool nat int | Infinity bool | NaN

text \<open>
  A spreadsheet cell as pandas hands it to the script: an integer, a float (a blank cell
  is the float NaN) or text.
\<close>

datatype cell = CInt int | CFloat pyfloat | CStr string

text \<open>
  What the Python and pandas libraries do with text is not code of this repository and is
  taken as a parameter: \<open>to_numeric_str\<close> is \<^verbatim>\<open>pd.to_numeric(..., errors="coerce")\<close> on one
  text cell (NaN when the text is not a number), \<open>int_str\<close> is \<^verbatim>\<open>int(s)\<close> on a string
  (\<open>None\<close> when it raises ValueError).
\<close>

record pylib =
  to_numeric_str :: "string \<Rightarrow> pyfloat"
  int_str :: "string \<Rightarrow> int option"


subsection \<open>\<^verbatim>\<open>str\<close> of an integer\<close>

definition digit_char :: "nat \<Rightarrow> char" where
  "digit_char n = ''0123456789'' ! (n mod 10)"

fun show_nat :: "nat \<Rightarrow> string" where
  "show_nat n = (if n < 10 then [digit_char n] else show_nat (n div 10) @ [digit_char (n mod 10)])"

declare show_nat.simps [simp del]

definition show_int :: "int \<Rightarrow> string" where
  "show_int i = (if i < 0 then ''-'' @ show_nat (nat (- i)) else show_nat (nat i))"


subsection \<open>\<^verbatim>\<open>int(x)\<close> and the format \<^verbatim>\<open>{x:.3f}\<close>\<close>

text \<open>\<^verbatim>\<open>int\<close> of a float truncates towards zero and raises on an infinity or a NaN.\<close>

fun int_of_float :: "pyfloat \<Rightarrow> error + int" where
  "int_of_float (Finite neg m e) =
     (let a = (if 0 \<le> e then int m * 2 ^ nat e else int m div 2 ^ nat (- e))
      in Inr (if neg then - a else a))"
| "int_of_float (Infinity neg) = Inl OverflowError"
| "int_of_float NaN = Inl ValueError"

fun py_int :: "pylib \<Rightarrow> cell \<Rightarrow> error + int" where
  "py_int lib (CInt n) = Inr n"
| "py_int lib (CFloat x) = int_of_float x"
| "py_int lib (CStr s) = (case int_str lib s of None \<Rightarrow> Inl ValueError | Some n \<Rightarrow> Inr n)"

text \<open>
  \<open>round_thousandths m e\<close> is \<^verbatim>\<open>m * 2 ** e * 1000\<close> rounded to the nearest natural
  number, a tie going to the even one: Python's fixed-point formatting is correctly
  rounded on the exact binary value.
\<close>

definition round_thousandths :: "nat \<Rightarrow> int \<Rightarrow> nat" where
  "round_thousandths m e =
     (if 0 \<le> e then m * 1000 * 2 ^ nat e
      else let d = 2 ^ nat (- e); n = m * 1000; q = n div d; r = n mod d
           in if d < 2 * r \<or> (2 * r = d \<and> odd q) then q + 1 else q)"

definition pad3 :: "nat \<Rightarrow> string" where
  "pad3 k = [digit_char (k div 100), digit_char (k div 10), digit_char k]"

fun format_3f :: "pyfloat \<Rightarrow> string" where
  "format_3f (Finite neg m e) =
     (let q = round_thousandths m e
      in (if neg then ''-'' else '''') @ show_nat (q div 1000) @ ''.'' @ pad3 (q mod 1000))"
| "format_3f (Infinity neg) = (if neg then ''-inf'' else ''inf'')"
| "format_3f NaN = ''nan''"


subsection \<open>\<^verbatim>\<open>float(x)\<close>\<close>

fun bit_length :: "nat \<Rightarrow> nat" where
  "bit_length n = (if n = 0 then 0 else Suc (bit_length (n div 2)))"

declare bit_length.simps [simp del]

text \<open>
  \<^verbatim>\<open>float\<close> of a number gives the nearest double: a mantissa of more than 53 bits is
  rounded to 53 bits, a tie going to the even mantissa, and a result of \<^verbatim>\<open>2 ** 1024\<close> or
  more raises OverflowError. A double is returned as it is.
\<close>

fun py_float :: "pyfloat \<Rightarrow> error + pyfloat" where
  "py_float (Finite neg m e) =
     (if m < 2 ^ 53 then Inr (Finite neg m e)
      else let k = bit_length m - 53; q = m div 2 ^ k; r = m mod 2 ^ k;
               q' = (if 2 ^ k < 2 * r \<or> (2 * r = 2 ^ k \<and> odd q) then q + 1 else q)
           in if 0 \<le> e + int k \<and> 2 ^ 1024 \<le> q' * 2 ^ nat (e + int k) then Inl OverflowError
              else Inr (Finite neg q' (e + int k)))"
| "py_float (Infinity neg) = Inr (Infinity neg)"
| "py_float NaN = Inr NaN"


subsection \<open>Numeric coercion of a column\<close>

text \<open>
  \<^verbatim>\<open>pd.to_numeric(column, errors="coerce")\<close>, cell by cell: a float stays the float it is,
  text is parsed by pandas, and what is not a number becomes NaN. For an integer pandas
  computes the double, which raises OverflowError beyond the range of the doubles
  (\<^verbatim>\<open>errors="coerce"\<close> does not catch that). The model keeps the integer itself, as
  pandas does in a column of integers only; in a column that also holds floats pandas
  keeps the double. The two differ only for an integer that is no double, and the
  theorems on the text of the file are stated for tables without such cells
  (\<open>double_columns\<close> below).
\<close>

fun to_numeric :: "pylib \<Rightarrow> cell \<Rightarrow> error + pyfloat" where
  "to_numeric lib (CInt n) =
     (case py_float (Finite (n < 0) (nat \<bar>n\<bar>) 0) of
        Inl e \<Rightarrow> Inl e
      | Inr d \<Rightarrow> Inr (Finite (n < 0) (nat \<bar>n\<bar>) 0))"
| "to_numeric lib (CFloat x) = Inr x"
| "to_numeric lib (CStr s) = Inr (to_numeric_str lib s)"

fun to_numeric_column :: "pylib \<Rightarrow> cell list \<Rightarrow> error + pyfloat list" where
  "to_numeric_column lib [] = Inr []"
| "to_numeric_column lib (c # cs) =
     (case to_numeric lib c of
        Inl e \<Rightarrow> Inl e
      | Inr x \<Rightarrow>
          (case to_numeric_column lib cs of
             Inl e \<Rightarrow> Inl e
           | Inr xs \<Rightarrow> Inr (x # xs)))"

fun isna :: "pyfloat \<Rightarrow> bool" where
  "isna NaN = True"
| "isna (Finite neg m e) = False"
| "isna (Infinity neg) = False"


section \<open>The two tables\<close>

text \<open>
  \<^verbatim>\<open>parse_data\<close> keeps the columns Ydin, N, Z, A, MEJYFL, MEAME20 of the first sheet
  and Target, Projectile, Ejectile, Compound of the second. A table is the list of its
  rows in sheet order; its index is the default one, \<open>0, 1, 2, \<dots>\<close>. The reaction
  columns hold text.
\<close>

record nuclide =
  col_Ydin :: cell
  col_N :: cell
  col_Z :: cell
  col_A :: cell
  col_MEJYFL :: cell
  col_MEAME20 :: cell

record reaction =
  col_Target :: string
  col_Projectile :: string
  col_Ejectile :: string
  col_Compound :: string

text \<open>
  \<^verbatim>\<open>column[process]\<close> looks the integer up as a label of the index and raises KeyError
  when no row has it.
\<close>

definition series_get :: "'a list \<Rightarrow> int \<Rightarrow> error + 'a" where
  "series_get column process =
     (if 0 \<le> process \<and> process < int (length column) then Inr (column ! nat process)
      else Inl KeyError)"

text \<open>\<^verbatim>\<open>frame.iloc[0]\<close> raises IndexError on a frame with no rows.\<close>

fun iloc0 :: "'a list \<Rightarrow> error + 'a" where
  "iloc0 [] = Inl IndexError"
| "iloc0 (r # rs) = Inr r"


section \<open>Paths, the file system and the console\<close>

type_synonym path = "string list"

fun split_on :: "char \<Rightarrow> string \<Rightarrow> string list" where
  "split_on c [] = [[]]"
| "split_on c (x # xs) =
     (if x = c then [] # split_on c xs
      else (case split_on c xs of [] \<Rightarrow> [[x]] | p # ps \<Rightarrow> (x # p) # ps))"

text \<open>
  A path is the list of its components below the root, and the script runs in the root.
  \<^verbatim>\<open>Path(s)\<close> has the pieces of \<open>s\<close> between slashes as components, without the empty
  ones and the single dots. \<^verbatim>\<open>base / s\<close> appends the components of \<open>s\<close>, and is
  \<^verbatim>\<open>Path(s)\<close> alone when \<open>s\<close> starts with a slash.
\<close>

definition path_parts :: "string \<Rightarrow> path" where
  "path_parts s = filter (\<lambda>p. p \<noteq> [] \<and> p \<noteq> ''.'') (split_on (CHR ''/'') s)"

definition path_join :: "path \<Rightarrow> string \<Rightarrow> path" where
  "path_join base s =
     (case s of
        [] \<Rightarrow> base
      | c # cs \<Rightarrow> if c = CHR ''/'' then path_parts s else base @ path_parts s)"

text \<open>A name with a NUL character is refused by every system call (ValueError).\<close>

definition has_nul :: "path \<Rightarrow> bool" where
  "has_nul p = list_ex (\<lambda>c. CHR 0x00 \<in> set c) p"

record date =
  day :: nat
  month :: nat
  year :: nat

text \<open>One entry per \<^verbatim>\<open>print\<close> call of the script, in the order of the calls.\<close>

datatype event =
    Creating_directory string
  | To_the_path path
  | Directory_created string
  | Directory_exists string
  | Permission_denied string
  | Error_occurred error
  | Created_input_file string
  | Warning_overwriting
  | Printed string
  | Listed_processes "reaction list"
  | Nuclear_information "nuclide list"

text \<open>
  Everything outside the script: the directories and the files (a file is its content),
  the directories in which nothing may be created (a file carries no permission of its
  own: one that exists can be rewritten), the workbooks that
  \<^verbatim>\<open>pd.read_excel\<close> can load, the date the clock shows, and what has been printed.
  The root directory \<open>[]\<close> always exists.
\<close>

record world =
  dirs :: "path set"
  files :: "path \<rightharpoonup> string"
  readonly :: "path set"
  workbooks :: "path \<rightharpoonup> nuclide list \<times> reaction list"
  today :: date
  console :: "event list"

definition is_dir :: "world \<Rightarrow> path \<Rightarrow> bool" where
  "is_dir w p = (p = [] \<or> p \<in> dirs w)"

definition is_file :: "world \<Rightarrow> path \<Rightarrow> bool" where
  "is_file w p = (files w p \<noteq> None)"

definition print :: "event \<Rightarrow> world \<Rightarrow> world" where
  "print ev w = w\<lparr>console := console w @ [ev]\<rparr>"

text \<open>\<^verbatim>\<open>os.mkdir\<close>: one directory, whose parent must be there.\<close>

definition os_mkdir :: "world \<Rightarrow> path \<Rightarrow> error + world" where
  "os_mkdir w p =
     (if has_nul p then Inl ValueError
      else if is_file w (butlast p) then Inl NotADirectoryError
      else if \<not> is_dir w (butlast p) then Inl FileNotFoundError
      else if is_dir w p \<or> is_file w p then Inl FileExistsError
      else if butlast p \<in> readonly w then Inl PermissionError
      else Inr (w\<lparr>dirs := insert p (dirs w)\<rparr>))"

text \<open>
  \<^verbatim>\<open>Path.mkdir(parents=..., exist_ok=...)\<close> as pathlib writes it: try the directory;
  on a missing parent, when \<open>parents\<close> is set, create the parent (tolerating one that
  exists) and try once more without \<open>parents\<close>; any other failure of the system call
  is tolerated only for a directory that exists, under \<open>exist_ok\<close>. A ValueError is no
  failure of the system call and is never tolerated. Parents created before a failure
  stay.
\<close>

definition mkdir_single :: "world \<Rightarrow> path \<Rightarrow> bool \<Rightarrow> outcome \<times> world" where
  "mkdir_single w p exist_ok =
     (case os_mkdir w p of
        Inr w' \<Rightarrow> (Returned, w')
      | Inl e \<Rightarrow>
          if e = FileNotFoundError \<or> e = ValueError then (Raised e, w)
          else if exist_ok \<and> is_dir w p then (Returned, w)
          else (Raised e, w))"

function path_mkdir :: "world \<Rightarrow> path \<Rightarrow> bool \<Rightarrow> outcome \<times> world" where
  "path_mkdir w p exist_ok =
     (case os_mkdir w p of
        Inr w' \<Rightarrow> (Returned, w')
      | Inl e \<Rightarrow>
          if e = FileNotFoundError then
            (if p = [] then (Raised e, w)
             else (case path_mkdir w (butlast p) True of
                     (Raised e', w') \<Rightarrow> (Raised e', w')
                   | (Returned, w') \<Rightarrow> mkdir_single w' p exist_ok))
          else if e = ValueError then (Raised e, w)
          else if exist_ok \<and> is_dir w p then (Returned, w)
          else (Raised e, w))"
  by pat_completeness auto
termination
  by (relation "measure (\<lambda>(w, p, exist_ok). length p)") auto

declare path_mkdir.simps [simp del]

text \<open>
  \<^verbatim>\<open>open(path, "x")\<close> creates an empty file and refuses a path that exists;
  \<^verbatim>\<open>open(path, "w")\<close> creates the file or empties the one that is there.
\<close>

definition open_x :: "world \<Rightarrow> path \<Rightarrow> error + world" where
  "open_x w p =
     (if has_nul p then Inl ValueError
      else if is_file w (butlast p) then Inl NotADirectoryError
      else if \<not> is_dir w (butlast p) then Inl FileNotFoundError
      else if is_dir w p \<or> is_file w p then Inl FileExistsError
      else if butlast p \<in> readonly w then Inl PermissionError
      else Inr (w\<lparr>files := (files w)(p \<mapsto> [])\<rparr>))"

definition open_w :: "world \<Rightarrow> path \<Rightarrow> error + world" where
  "open_w w p =
     (if has_nul p then Inl ValueError
      else if is_file w (butlast p) then Inl NotADirectoryError
      else if \<not> is_dir w (butlast p) then Inl FileNotFoundError
      else if is_dir w p then Inl IsADirectoryError
      else if is_file w p then Inr (w\<lparr>files := (files w)(p \<mapsto> [])\<rparr>)
      else if butlast p \<in> readonly w then Inl PermissionError
      else Inr (w\<lparr>files := (files w)(p \<mapsto> [])\<rparr>))"

text \<open>
  \<^verbatim>\<open>with open(path, mode) as f: body(f)\<close>. The body appends to what the file holds;
  leaving the block closes the file, so what the body wrote before raising stays in it.
\<close>

definition with_open ::
  "(world \<Rightarrow> path \<Rightarrow> error + world) \<Rightarrow> world \<Rightarrow> path \<Rightarrow> (string \<Rightarrow> outcome \<times> string)
     \<Rightarrow> outcome \<times> world" where
  "with_open opener w p body =
     (case opener w p of
        Inl e \<Rightarrow> (Raised e, w)
      | Inr w' \<Rightarrow>
          (case body (case files w' p of None \<Rightarrow> [] | Some c \<Rightarrow> c) of
             (res, f) \<Rightarrow> (res, w'\<lparr>files := (files w')(p \<mapsto> f)\<rparr>)))"


section \<open>The script\<close>

subsection \<open>\<^verbatim>\<open>parse_data\<close>\<close>

definition parse_data :: "world \<Rightarrow> path \<Rightarrow> error + nuclide list \<times> reaction list" where
  "parse_data w data_path =
     (case workbooks w data_path of
        None \<Rightarrow> Inl FileNotFoundError
      | Some (nucl_info, reactions) \<Rightarrow> Inr (nucl_info, reactions))"


subsection \<open>\<^verbatim>\<open>make_dir\<close>\<close>

definition pad2 :: "nat \<Rightarrow> string" where
  "pad2 n = (if n < 10 then ''0'' @ show_nat n else show_nat n)"

text \<open>\<^verbatim>\<open>TIME.strftime("%d%m%y")\<close>: day, month and the year within its century.\<close>

definition strftime_dmy :: "date \<Rightarrow> string" where
  "strftime_dmy d = pad2 (day d) @ pad2 (month d) @ pad2 (year d mod 100)"

definition directory_name_of ::
  "date \<Rightarrow> string \<Rightarrow> string \<Rightarrow> int \<Rightarrow> int \<Rightarrow> int \<Rightarrow> string" where
  "directory_name_of d projectile target l s m =
     ''Run-'' @ strftime_dmy d @ ''_'' @ projectile @ target @ ''-''
       @ show_int l @ show_int s @ show_int m"

definition make_dir ::
  "string \<Rightarrow> string \<Rightarrow> int \<Rightarrow> int \<Rightarrow> int \<Rightarrow> path \<Rightarrow> world \<Rightarrow> string \<times> world" where
  "make_dir projectile target l s m runs w =
     (let directory_name = directory_name_of (today w) projectile target l s m;
          directory_path = path_join runs directory_name;
          w1 = print (Creating_directory directory_name) w;
          w2 = print (To_the_path runs) w1;
          w3 = (case path_mkdir w2 directory_path False of
                  (Returned, w') \<Rightarrow> print (Directory_created directory_name) w'
                | (Raised e, w') \<Rightarrow>
                    if e = FileExistsError then print (Directory_exists directory_name) w'
                    else if e = PermissionError then print (Permission_denied directory_name) w'
                    else print (Error_occurred e) w')
      in (directory_name, w3))"


subsection \<open>\<^verbatim>\<open>make_input\<close>\<close>

text \<open>
  The frame \<^verbatim>\<open>df_me\<close>: the three columns are coerced one after the other (which may
  raise), every row gets its three coerced values, and the rows where one of the three is
  NaN are dropped.
\<close>

definition df_me ::
  "pylib \<Rightarrow> nuclide list \<Rightarrow> error + (nuclide \<times> pyfloat \<times> pyfloat \<times> pyfloat) list" where
  "df_me lib nucl_info =
     (case to_numeric_column lib (map col_Z nucl_info) of
        Inl e \<Rightarrow> Inl e
      | Inr Z_num \<Rightarrow>
      case to_numeric_column lib (map col_A nucl_info) of
        Inl e \<Rightarrow> Inl e
      | Inr A_num \<Rightarrow>
      case to_numeric_column lib (map col_MEJYFL nucl_info) of
        Inl e \<Rightarrow> Inl e
      | Inr ME_num \<Rightarrow>
          Inr (filter (\<lambda>(r, Z_num, A_num, ME_num).
                         \<not> isna Z_num \<and> \<not> isna A_num \<and> \<not> isna ME_num)
                 (zip nucl_info (zip Z_num (zip A_num ME_num)))))"

text \<open>
  The sixteen \<^verbatim>\<open>f.write\<close> calls that open \<^verbatim>\<open>write_input\<close>, in their order. Python
  prints the float literals \<^verbatim>\<open>0.1\<close> and \<^verbatim>\<open>1.0E-25\<close> as \<^verbatim>\<open>0.1\<close> and \<^verbatim>\<open>1e-25\<close>.
\<close>

definition header_writes :: "string \<Rightarrow> int \<Rightarrow> int \<Rightarrow> int \<Rightarrow> int \<Rightarrow> int \<Rightarrow> string list" where
  "header_writes projectile Z_target A_target l s m =
     [''energy 0.1\<newline>'',
      ''projectile '' @ projectile @ ''\<newline>'',
      ''element '' @ show_int Z_target @ ''\<newline>'',
      ''mass '' @ show_int A_target @ ''\<newline>'',
      ''ldmodel '' @ show_int l @ ''\<newline>'',
      ''strength '' @ show_int s @ ''\<newline>'',
      ''massmodel '' @ show_int m @ ''\<newline>'',
      ''astro y\<newline>'',
      ''transeps 1e-25\<newline>'',
      ''xseps 1e-25\<newline>'',
      ''popeps 1e-25\<newline>'',
      ''gnorm y\<newline>'',
      ''outlevels y\<newline>'',
      ''outdensity y\<newline>'',
      ''outgamma y\<newline>'',
      ''expmass y\<newline>'']"

text \<open>
  The loop over \<^verbatim>\<open>df_me[["Z_num", "A_num", "ME_num"]]\<close>. The three conversions of a
  line come before its \<^verbatim>\<open>f.write\<close>, so a conversion that raises leaves the file as the
  lines before left it.
\<close>

fun write_rows :: "(pyfloat \<times> pyfloat \<times> pyfloat) list \<Rightarrow> string \<Rightarrow> outcome \<times> string" where
  "write_rows [] f = (Returned, f)"
| "write_rows ((Z, A, ME) # rows) f =
     (case int_of_float Z of
        Inl e \<Rightarrow> (Raised e, f)
      | Inr z \<Rightarrow>
          (case int_of_float A of
             Inl e \<Rightarrow> (Raised e, f)
           | Inr a \<Rightarrow>
               (case py_float ME of
                  Inl e \<Rightarrow> (Raised e, f)
                | Inr me \<Rightarrow>
                    write_rows rows
                      (f @ ''massexcess '' @ show_int z @ '' '' @ show_int a @ '' ''
                         @ format_3f me @ ''\<newline>''))))"

definition write_input ::
  "string \<Rightarrow> int \<Rightarrow> int \<Rightarrow> int \<Rightarrow> int \<Rightarrow> int \<Rightarrow> (pyfloat \<times> pyfloat \<times> pyfloat) list
     \<Rightarrow> string \<Rightarrow> outcome \<times> string" where
  "write_input projectile Z_target A_target l s m rows f =
     write_rows rows (foldl (@) f (header_writes projectile Z_target A_target l s m))"

definition input_path_of :: "path \<Rightarrow> string \<Rightarrow> path" where
  "input_path_of runs run_dir_name =
     path_join (path_join runs run_dir_name) (run_dir_name @ ''_input.txt'')"

definition make_input ::
  "pylib \<Rightarrow> nuclide list \<Rightarrow> reaction list \<Rightarrow> int \<Rightarrow> int \<Rightarrow> int \<Rightarrow> int \<Rightarrow> path \<Rightarrow> string
     \<Rightarrow> world \<Rightarrow> outcome \<times> world" where
  "make_input lib nucl_info reactions process l s m runs run_dir_name w =
     (let input_path = input_path_of runs run_dir_name in
      case series_get (map col_Target reactions) process of
        Inl e \<Rightarrow> (Raised e, w)
      | Inr target \<Rightarrow>
      case series_get (map col_Projectile reactions) process of
        Inl e \<Rightarrow> (Raised e, w)
      | Inr projectile \<Rightarrow>
      case iloc0 (filter (\<lambda>r. col_Ydin r = CStr target) nucl_info) of
        Inl e \<Rightarrow> (Raised e, w)
      | Inr row \<Rightarrow>
      case py_int lib (col_Z row) of
        Inl e \<Rightarrow> (Raised e, w)
      | Inr Z_target \<Rightarrow>
      case py_int lib (col_A row) of
        Inl e \<Rightarrow> (Raised e, w)
      | Inr A_target \<Rightarrow>
      case df_me lib nucl_info of
        Inl e \<Rightarrow> (Raised e, w)
      | Inr frame \<Rightarrow>
      let body = write_input projectile Z_target A_target l s m (map snd frame);
          w1 = print (Created_input_file (run_dir_name @ ''_input.txt'')) w
      in case with_open open_x w1 input_path body of
           (Raised e, w2) \<Rightarrow>
             if e = FileExistsError
             then with_open open_w (print Warning_overwriting w2) input_path body
             else (Raised e, w2)
         | (Returned, w2) \<Rightarrow> (Returned, w2))"


subsection \<open>\<^verbatim>\<open>main\<close>\<close>

record args =
  arg_runs :: string
  arg_data :: string
  arg_ldmodel :: int
  arg_strength :: int
  arg_massmodel :: int

text \<open>
  The body of \<^verbatim>\<open>main\<close> with the number of the process as a parameter; \<^verbatim>\<open>main\<close> itself
  fixes it at 0.
\<close>

definition main_process :: "pylib \<Rightarrow> int \<Rightarrow> args \<Rightarrow> world \<Rightarrow> outcome \<times> world" where
  "main_process lib process a w =
     (let RUNS_PATH = path_parts (arg_runs a);
          DATA_PATH = path_parts (arg_data a);
          ldmodel = arg_ldmodel a;
          strength = arg_strength a;
          massmodel = arg_massmodel a
      in case parse_data w DATA_PATH of
           Inl e \<Rightarrow> (Raised e, w)
         | Inr (nucl_info, reactions) \<Rightarrow>
         case series_get (map col_Target reactions) process of
           Inl e \<Rightarrow> (Raised e, w)
         | Inr target \<Rightarrow>
         case series_get (map col_Projectile reactions) process of
           Inl e \<Rightarrow> (Raised e, w)
         | Inr projectile \<Rightarrow>
         let w1 = print (Printed target) w;
             w2 = print (Printed projectile) w1;
             w3 = print (Listed_processes reactions) w2;
             w4 = print (Nuclear_information nucl_info) w3
         in case make_dir projectile target ldmodel strength massmodel RUNS_PATH w4 of
              (run_dir, w5) \<Rightarrow>
                make_input lib nucl_info reactions process ldmodel strength massmodel
                  RUNS_PATH run_dir w5)"

definition main :: "pylib \<Rightarrow> args \<Rightarrow> world \<Rightarrow> outcome \<times> world" where
  "main lib a w = main_process lib 0 a w"


section \<open>The documented behaviour\<close>

text \<open>
  The input file as the documentation describes it: sixteen lines of a key, one space,
  a value and a newline, then one \<^verbatim>\<open>massexcess\<close> line for every row of the nuclide
  table whose Z, A and MEJYFL all coerce to a number, in table order.
\<close>

definition key_value_line :: "string \<times> string \<Rightarrow> string" where
  "key_value_line kv = fst kv @ '' '' @ snd kv @ ''\<newline>''"

definition documented_keys :: "string \<Rightarrow> int \<Rightarrow> int \<Rightarrow> int \<Rightarrow> int \<Rightarrow> int \<Rightarrow> (string \<times> string) list" where
  "documented_keys projectile Z_target A_target l s m =
     [(''energy'', ''0.1''),
      (''projectile'', projectile),
      (''element'', show_int Z_target),
      (''mass'', show_int A_target),
      (''ldmodel'', show_int l),
      (''strength'', show_int s),
      (''massmodel'', show_int m),
      (''astro'', ''y''),
      (''transeps'', ''1e-25''),
      (''xseps'', ''1e-25''),
      (''popeps'', ''1e-25''),
      (''gnorm'', ''y''),
      (''outlevels'', ''y''),
      (''outdensity'', ''y''),
      (''outgamma'', ''y''),
      (''expmass'', ''y'')]"

text \<open>The number a cell coerces to (NaN stands in where the coercion raises).\<close>

definition numeric :: "pylib \<Rightarrow> cell \<Rightarrow> pyfloat" where
  "numeric lib c = (case to_numeric lib c of Inl e \<Rightarrow> NaN | Inr x \<Rightarrow> x)"

definition coerces :: "pylib \<Rightarrow> nuclide \<Rightarrow> bool" where
  "coerces lib r =
     (\<not> isna (numeric lib (col_Z r)) \<and> \<not> isna (numeric lib (col_A r))
      \<and> \<not> isna (numeric lib (col_MEJYFL r)))"

text \<open>
  A cell that coerces to a double: to NaN, to an infinity, or to a finite number whose
  mantissa has at most 53 bits (every integer below \<^verbatim>\<open>2 ** 53\<close> in magnitude is one). A
  cell that coerces at all: its coercion does not raise. A table has \<open>double_columns\<close>
  when the Z and the A of every row coerce to doubles and its mass excess coerces at all:
  on such a table the coercion that pandas makes column by column is the one made cell
  by cell.
\<close>

definition double_cell :: "pylib \<Rightarrow> cell \<Rightarrow> bool" where
  "double_cell lib c =
     (case to_numeric lib c of
        Inl e \<Rightarrow> False
      | Inr x \<Rightarrow> (case x of Finite neg m e \<Rightarrow> m < 2 ^ 53 | Infinity neg \<Rightarrow> True | NaN \<Rightarrow> True))"

definition coercible_cell :: "pylib \<Rightarrow> cell \<Rightarrow> bool" where
  "coercible_cell lib c = (case to_numeric lib c of Inl e \<Rightarrow> False | Inr x \<Rightarrow> True)"

definition double_columns :: "pylib \<Rightarrow> nuclide list \<Rightarrow> bool" where
  "double_columns lib nucl_info =
     list_all (\<lambda>r. double_cell lib (col_Z r) \<and> double_cell lib (col_A r)
                  \<and> coercible_cell lib (col_MEJYFL r)) nucl_info"

text \<open>
  The integer a finite float truncates to (0 stands in where \<^verbatim>\<open>int\<close> raises), and the
  double nearest to a number (the number itself stands in where \<^verbatim>\<open>float\<close> raises).
\<close>

definition truncated :: "pyfloat \<Rightarrow> int" where
  "truncated x = (case int_of_float x of Inl e \<Rightarrow> 0 | Inr z \<Rightarrow> z)"

definition as_double :: "pyfloat \<Rightarrow> pyfloat" where
  "as_double x = (case py_float x of Inl e \<Rightarrow> x | Inr d \<Rightarrow> d)"

definition massexcess_line :: "pylib \<Rightarrow> nuclide \<Rightarrow> string" where
  "massexcess_line lib r =
     key_value_line (''massexcess'',
       show_int (truncated (numeric lib (col_Z r))) @ '' ''
       @ show_int (truncated (numeric lib (col_A r))) @ '' ''
       @ format_3f (as_double (numeric lib (col_MEJYFL r))))"

definition documented_text ::
  "pylib \<Rightarrow> nuclide list \<Rightarrow> string \<Rightarrow> int \<Rightarrow> int \<Rightarrow> int \<Rightarrow> int \<Rightarrow> int \<Rightarrow> string" where
  "documented_text lib nucl_info projectile Z_target A_target l s m =
     concat (map key_value_line (documented_keys projectile Z_target A_target l s m))
     @ concat (map (massexcess_line lib) (filter (coerces lib) nucl_info))"

definition is_digit :: "char \<Rightarrow> bool" where
  "is_digit c = (c \<in> set ''0123456789'')"

text \<open>
  A number written with exactly three decimal places: an optional minus sign, at least
  one digit, a point, three digits.
\<close>

definition three_decimals :: "string \<Rightarrow> bool" where
  "three_decimals s =
     (let t = (case s of [] \<Rightarrow> [] | c # cs \<Rightarrow> if c = CHR ''-'' then cs else s)
      in takeWhile is_digit t \<noteq> [] \<and>
         (case dropWhile is_digit t of
            [] \<Rightarrow> False
          | c # fp \<Rightarrow> c = CHR ''.'' \<and> length fp = 3 \<and> list_all is_digit fp))"

text \<open>Two digits, the first a zero for a number below ten.\<close>

definition two_digits :: "nat \<Rightarrow> string" where
  "two_digits n = [digit_char (n div 10), digit_char (n mod 10)]"

text \<open>The columns of a nuclide row that are not N and not MEAME20.\<close>

definition used_columns :: "nuclide \<Rightarrow> cell \<times> cell \<times> cell \<times> cell" where
  "used_columns r = (col_Ydin r, col_Z r, col_A r, col_MEJYFL r)"


section \<open>Concrete tables\<close>

text \<open>
  A library for the examples: text made of decimal digits only is the number it writes,
  any other text is not a number. That is what Python and pandas do with the text cells
  of the examples (\<^verbatim>\<open>N/A\<close>).
\<close>

definition decimal_nat :: "string \<Rightarrow> nat option" where
  "decimal_nat s =
     (if s \<noteq> [] \<and> list_all is_digit s
      then Some (foldl (\<lambda>n c. 10 * n + (of_char c - 48)) 0 s) else None)"

definition example_lib :: pylib where
  "example_lib =
     \<lparr>to_numeric_str = (\<lambda>s. case decimal_nat s of None \<Rightarrow> NaN | Some n \<Rightarrow> Finite False n 0),
      int_str = (\<lambda>s. map_option int (decimal_nat s))\<rparr>"

text \<open>The nuclide 56Ni with the mass excess -53.9 (as the double nearest to it) and -54.0.\<close>

definition Ni56 :: nuclide where
  "Ni56 = \<lparr>col_Ydin = CStr ''56Ni'', col_N = CInt 28, col_Z = CInt 28, col_A = CInt 56,
            col_MEJYFL = CFloat (Finite True 7585750622352179 (- 47)),
            col_MEAME20 = CFloat (Finite True 54 0)\<rparr>"

definition p_Ni56 :: reaction where
  "p_Ni56 = \<lparr>col_Target = ''56Ni'', col_Projectile = ''p'', col_Ejectile = ''g'',
              col_Compound = ''57Cu''\<rparr>"

definition scenario_args :: args where
  "scenario_args = \<lparr>arg_runs = ''runs'', arg_data = ''data.xlsx'', arg_ldmodel = 5,
                     arg_strength = 8, arg_massmodel = 2\<rparr>"

text \<open>
  A world on 1 January 2025 with an empty directory \<^verbatim>\<open>runs\<close> and the given workbook at
  \<^verbatim>\<open>data.xlsx\<close>.
\<close>

definition world_with :: "nuclide list \<times> reaction list \<Rightarrow> world" where
  "world_with book =
     \<lparr>dirs = {[''runs'']}, files = Map.empty, readonly = {},
      workbooks = [[''data.xlsx''] \<mapsto> book],
      today = \<lparr>day = 1, month = 1, year = 2025\<rparr>, console = []\<rparr>"

definition scenario_world :: world where
  "scenario_world = world_with ([Ni56], [p_Ni56])"

text \<open>The same world once the run directory of that day for p + 56Ni with (5, 8, 2) is there.\<close>

definition run_world :: world where
  "run_world = scenario_world\<lparr>dirs := {[''runs'', ''Run-010125_p56Ni-582''], [''runs'']}\<rparr>"

text \<open>The same world with a directory \<^verbatim>\<open>runs\<close> in which nothing may be created.\<close>

definition locked_world :: world where
  "locked_world = scenario_world\<lparr>readonly := {[''runs'']}\<rparr>"

text \<open>A world whose workbook lists three reactions.\<close>

definition three_reactions_world :: world where
  "three_reactions_world = world_with ([Ni56], [p_Ni56, p_Ni56, p_Ni56])"

definition scenario_header :: string where
  "scenario_header = ''energy 0.1\<newline>projectile p\<newline>element 28\<newline>mass 56\<newline>ldmodel 5\<newline>strength 8\<newline>massmodel 2\<newline>astro y\<newline>transeps 1e-25\<newline>xseps 1e-25\<newline>popeps 1e-25\<newline>gnorm y\<newline>outlevels y\<newline>outdensity y\<newline>outgamma y\<newline>expmass y\<newline>''"

definition scenario_file :: string where
  "scenario_file = scenario_header @ ''massexcess 28 56 -53.900\<newline>''"

definition scenario_path :: path where
  "scenario_path = [''runs'', ''Run-010125_p56Ni-582'', ''Run-010125_p56Ni-582_input.txt'']"

text \<open>
  Variants of the 56Ni row: an infinite mass excess; a Z that is the text \<^verbatim>\<open>N/A\<close>; other
  values in the two columns the script does not read. Two further rows: 57Ni with a mass
  excess that is the text \<^verbatim>\<open>N/A\<close>, and 58Ni with the mass excess -60. The 56Ni row with
  the integer \<^verbatim>\<open>2 ** 53 + 1\<close>, which is no double, as mass excess. A reaction on 58Ni.
\<close>

definition Ni56_inf :: nuclide where
  "Ni56_inf = Ni56\<lparr>col_MEJYFL := CFloat (Infinity False)\<rparr>"

definition Ni56_na :: nuclide where
  "Ni56_na = Ni56\<lparr>col_Z := CStr ''N/A''\<rparr>"

definition Ni56_other :: nuclide where
  "Ni56_other = Ni56\<lparr>col_N := CInt 99, col_MEAME20 := CStr ''N/A''\<rparr>"

definition Ni57_na :: nuclide where
  "Ni57_na = \<lparr>col_Ydin = CStr ''57Ni'', col_N = CInt 29, col_Z = CInt 28, col_A = CInt 57,
               col_MEJYFL = CStr ''N/A'', col_MEAME20 = CFloat (Finite True 56 0)\<rparr>"

definition Ni58 :: nuclide where
  "Ni58 = \<lparr>col_Ydin = CStr ''58Ni'', col_N = CInt 30, col_Z = CInt 28, col_A = CInt 58,
            col_MEJYFL = CFloat (Finite True 60 0), col_MEAME20 = CFloat (Finite True 60 0)\<rparr>"

definition Ni56_big :: nuclide where
  "Ni56_big = Ni56\<lparr>col_MEJYFL := CInt 9007199254740993\<rparr>"

definition p_Ni58 :: reaction where
  "p_Ni58 = \<lparr>col_Target = ''58Ni'', col_Projectile = ''p'', col_Ejectile = ''g'',
              col_Compound = ''59Cu''\<rparr>"


section \<open>Auxiliary notions for the proofs\<close>

text \<open>The \<^verbatim>\<open>try\<close> statement that ends \<^verbatim>\<open>make_input\<close>, taken on its own.\<close>

definition try_write ::
  "world \<Rightarrow> path \<Rightarrow> string \<Rightarrow> (string \<Rightarrow> outcome \<times> string) \<Rightarrow> outcome \<times> world" where
  "try_write w input_path file_name body =
     (case with_open open_x (print (Created_input_file file_name) w) input_path body of
        (Raised e, w2) \<Rightarrow>
          if e = FileExistsError
          then with_open open_w (print Warning_overwriting w2) input_path body
          else (Raised e, w2)
      | (Returned, w2) \<Rightarrow> (Returned, w2))"

definition triple_of :: "pylib \<Rightarrow> nuclide \<Rightarrow> pyfloat \<times> pyfloat \<times> pyfloat" where
  "triple_of lib r =
     (numeric lib (col_Z r), numeric lib (col_A r), numeric lib (col_MEJYFL r))"

definition triple_line :: "pyfloat \<times> pyfloat \<times> pyfloat \<Rightarrow> string" where
  "triple_line t =
     (case t of (Z, A, ME) \<Rightarrow>
        ''massexcess '' @ show_int (truncated Z) @ '' '' @ show_int (truncated A) @ '' ''
          @ format_3f (as_double ME) @ ''\<newline>'')"

fun finite_float :: "pyfloat \<Rightarrow> bool" where
  "finite_float (Finite neg m e) = True"
| "finite_float (Infinity neg) = False"
| "finite_float NaN = False"

text \<open>The report \<^verbatim>\<open>make_dir\<close> prints for an outcome of \<^verbatim>\<open>mkdir\<close>.\<close>

definition report_of :: "string \<Rightarrow> outcome \<Rightarrow> event" where
  "report_of name res =
     (case res of
        Returned \<Rightarrow> Directory_created name
      | Raised e \<Rightarrow>
          if e = FileExistsError then Directory_exists name
          else if e = PermissionError then Permission_denied name
          else Error_occurred e)"


section \<open>Lemmas\<close>

subsection \<open>Digits and the three decimal places\<close>

lemma is_digit_digit_char: "is_digit (digit_char n)"
proof -
  have "n mod 10 < length ''0123456789''" by simp
  then have "''0123456789'' ! (n mod 10) \<in> set ''0123456789''" by (rule nth_mem)
  then show ?thesis by (simp only: is_digit_def digit_char_def)
qed

lemma show_nat_digits: "show_nat n \<noteq> [] \<and> list_all is_digit (show_nat n)"
proof (induction n rule: show_nat.induct)
  case (1 n)
  show ?case
  proof (cases "n < 10")
    case True
    then show ?thesis by (subst (1 2) show_nat.simps) (simp add: is_digit_digit_char)
  next
    case False
    with 1 show ?thesis by (subst (1 2) show_nat.simps) (simp add: is_digit_digit_char)
  qed
qed

lemma not_digit_point: "\<not> is_digit CHR ''.''" "\<not> is_digit CHR ''-''"
  by (simp_all add: is_digit_def)

lemma three_decimals_shape:
  assumes "ds \<noteq> []" "list_all is_digit ds" "length fp = 3" "list_all is_digit fp"
  shows "three_decimals ((if neg then ''-'' else []) @ ds @ ''.'' @ fp)"
proof -
  obtain d ds' where ds: "ds = d # ds'" using assms(1) by (cases ds) auto
  have d: "d \<noteq> CHR ''-''" using assms(2) ds not_digit_point(2) by auto
  have all: "\<forall>x\<in>set ds. is_digit x" using assms(2) by (simp add: list_all_iff)
  have tw: "takeWhile is_digit (ds @ CHR ''.'' # fp) = ds"
    using all by (simp add: takeWhile_append2 not_digit_point)
  have dw: "dropWhile is_digit (ds @ CHR ''.'' # fp) = CHR ''.'' # fp"
    using all by (simp add: dropWhile_append2 not_digit_point)
  have t: "(case (if neg then ''-'' else []) @ ds @ ''.'' @ fp of [] \<Rightarrow> []
             | c # cs \<Rightarrow> if c = CHR ''-'' then cs else (if neg then ''-'' else []) @ ds @ ''.'' @ fp)
           = ds @ CHR ''.'' # fp"
    using d by (simp add: ds)
  show ?thesis
    unfolding three_decimals_def Let_def t tw dw using assms by simp
qed

lemma format_3f_Finite: "three_decimals (format_3f (Finite neg m e))"
proof -
  have "length (pad3 k) = 3 \<and> list_all is_digit (pad3 k)" for k
    by (simp add: pad3_def is_digit_digit_char)
  then show ?thesis
    using three_decimals_shape[of "show_nat (round_thousandths m e div 1000)"
        "pad3 (round_thousandths m e mod 1000)" neg] show_nat_digits
    by (simp add: Let_def)
qed

lemma format_3f_Infinity: "\<not> three_decimals (format_3f (Infinity neg))"
  by (simp add: three_decimals_def is_digit_def)

lemma pad2_two_digits: "n < 100 \<Longrightarrow> pad2 n = two_digits n"
proof -
  assume n: "n < 100"
  have d0: "digit_char 0 = CHR ''0''" by (simp add: digit_char_def)
  show ?thesis
  proof (cases "n < 10")
    case True
    then show ?thesis
      by (simp add: pad2_def two_digits_def show_nat.simps[of n] d0 digit_char_def)
  next
    case False
    then have "n div 10 < 10" using n by simp
    then show ?thesis using False
      by (simp add: pad2_def two_digits_def show_nat.simps[of n] show_nat.simps[of "n div 10"])
  qed
qed


subsection \<open>Conversions\<close>

lemma int_of_float_error: "int_of_float x = Inl e \<Longrightarrow> \<not> isna x \<Longrightarrow> e = OverflowError"
  by (cases x) (auto simp: Let_def)

lemma int_of_float_finite: "int_of_float x = Inr z \<Longrightarrow> finite_float x"
  by (cases x) auto

lemma py_int_error:
  assumes "py_int lib c = Inl e"
  shows "e = ValueError \<or> e = OverflowError"
proof (cases c)
  case (CInt n)
  with assms show ?thesis by simp
next
  case (CFloat x)
  with assms show ?thesis by (cases x) (auto simp: Let_def)
next
  case (CStr s)
  with assms show ?thesis by (auto split: option.splits)
qed

lemma py_float_error: "py_float x = Inl e \<Longrightarrow> e = OverflowError"
  by (cases x) (auto simp: Let_def split: if_splits)

lemma py_float_double: "m < 2 ^ 53 \<Longrightarrow> py_float (Finite neg m e) = Inr (Finite neg m e)"
  by simp

lemma to_numeric_error: "to_numeric lib c = Inl e \<Longrightarrow> e = OverflowError"
  by (cases c) (auto split: sum.splits dest: py_float_error simp del: py_float.simps)

lemma to_numeric_numeric: "to_numeric lib c = Inr x \<Longrightarrow> numeric lib c = x"
  by (simp add: numeric_def)

lemma coercible_numeric: "coercible_cell lib c \<Longrightarrow> to_numeric lib c = Inr (numeric lib c)"
  by (cases "to_numeric lib c") (simp_all add: coercible_cell_def numeric_def)

lemma double_coercible: "double_cell lib c \<Longrightarrow> coercible_cell lib c"
  by (cases "to_numeric lib c") (simp_all add: coercible_cell_def double_cell_def)

lemma double_cell_as_double: "double_cell lib c \<Longrightarrow> as_double (numeric lib c) = numeric lib c"
  by (cases "to_numeric lib c"; cases "numeric lib c")
     (auto simp: double_cell_def numeric_def as_double_def)

lemma series_get_error: "series_get xs i = Inl e \<Longrightarrow> e = KeyError"
  by (simp add: series_get_def split: if_splits)

lemma series_get_out_of_range:
  "process < 0 \<or> int (length xs) \<le> process \<Longrightarrow> series_get (map f xs) process = Inl KeyError"
  by (auto simp: series_get_def)

lemma series_get_other_column:
  "series_get (map f xs) process = Inr x \<Longrightarrow> \<exists>y. series_get (map g xs) process = Inr y"
  by (auto simp: series_get_def split: if_splits)


subsection \<open>The frame of coerced rows and the loop over it\<close>

lemma foldl_append_concat: "foldl (@) f xs = f @ concat xs"
  by (induction xs arbitrary: f) simp_all

lemma to_numeric_column_Inr:
  "to_numeric_column lib cs = Inr xs \<Longrightarrow> xs = map (numeric lib) cs"
  by (induction cs arbitrary: xs) (auto split: sum.splits simp: to_numeric_numeric)

lemma to_numeric_column_error: "to_numeric_column lib cs = Inl e \<Longrightarrow> e = OverflowError"
  by (induction cs) (auto split: sum.splits dest: to_numeric_error)

lemma to_numeric_column_coercible:
  "list_all (coercible_cell lib) cs \<Longrightarrow> to_numeric_column lib cs = Inr (map (numeric lib) cs)"
  by (induction cs) (simp_all add: coercible_numeric)

lemma zip_columns:
  "zip t (zip (map f t) (zip (map g t) (map h t))) = map (\<lambda>r. (r, f r, g r, h r)) t"
  by (induction t) simp_all

lemma df_me_Inr:
  assumes "df_me lib t = Inr rows"
  shows "rows = filter (\<lambda>(r, Z_num, A_num, ME_num).
                          \<not> isna Z_num \<and> \<not> isna A_num \<and> \<not> isna ME_num)
                  (map (\<lambda>r. (r, numeric lib (col_Z r), numeric lib (col_A r),
                               numeric lib (col_MEJYFL r))) t)"
proof -
  from assms obtain zs as mes where
    z: "to_numeric_column lib (map col_Z t) = Inr zs"
    and a: "to_numeric_column lib (map col_A t) = Inr as"
    and me: "to_numeric_column lib (map col_MEJYFL t) = Inr mes"
    and r: "rows = filter (\<lambda>(r, Z_num, A_num, ME_num).
                             \<not> isna Z_num \<and> \<not> isna A_num \<and> \<not> isna ME_num)
                     (zip t (zip zs (zip as mes)))"
    by (auto simp: df_me_def split: sum.splits)
  have "zip t (zip zs (zip as mes))
        = map (\<lambda>r. (r, numeric lib (col_Z r), numeric lib (col_A r),
                       numeric lib (col_MEJYFL r))) t"
    unfolding to_numeric_column_Inr[OF z] to_numeric_column_Inr[OF a]
      to_numeric_column_Inr[OF me] map_map o_def
    by (rule zip_columns)
  with r show ?thesis by simp
qed

lemma df_me_error: "df_me lib t = Inl e \<Longrightarrow> e = OverflowError"
  by (auto simp: df_me_def split: sum.splits dest: to_numeric_column_error)

lemma df_me_fst: "df_me lib t = Inr rows \<Longrightarrow> map fst rows = filter (coerces lib) t"
proof -
  assume "df_me lib t = Inr rows"
  note r = df_me_Inr[OF this]
  show ?thesis unfolding r by (induction t) (simp_all add: coerces_def)
qed

lemma df_me_snd:
  "df_me lib t = Inr rows \<Longrightarrow> map snd rows = map (triple_of lib) (filter (coerces lib) t)"
proof -
  assume "df_me lib t = Inr rows"
  note r = df_me_Inr[OF this]
  show ?thesis unfolding r by (induction t) (simp_all add: coerces_def triple_of_def)
qed

lemma df_me_no_nan:
  "df_me lib t = Inr rows \<Longrightarrow> list_all (\<lambda>(Z, A, ME). \<not> isna Z \<and> \<not> isna A) (map snd rows)"
proof -
  assume "df_me lib t = Inr rows"
  note r = df_me_Inr[OF this]
  show ?thesis unfolding r by (induction t) simp_all
qed

lemma df_me_double_columns:
  assumes "double_columns lib t"
  shows "\<exists>rows. df_me lib t = Inr rows"
proof -
  from assms have "list_all (coercible_cell lib) (map col_Z t)"
    "list_all (coercible_cell lib) (map col_A t)"
    "list_all (coercible_cell lib) (map col_MEJYFL t)"
    by (auto simp: double_columns_def list_all_iff double_coercible)
  then show ?thesis
    by (simp add: df_me_def to_numeric_column_coercible)
qed

lemma write_rows_Returned:
  "write_rows rows f = (Returned, f') \<Longrightarrow>
     f' = f @ concat (map triple_line rows)
     \<and> list_all (\<lambda>(Z, A, ME). finite_float Z \<and> finite_float A) rows"
proof (induction rows arbitrary: f)
  case Nil
  then show ?case by simp
next
  case (Cons t rows)
  obtain Z A ME where t: "t = (Z, A, ME)" by (cases t) auto
  from Cons.prems obtain z a me where z: "int_of_float Z = Inr z" and a: "int_of_float A = Inr a"
    and me: "py_float ME = Inr me"
    and rest: "write_rows rows (f @ ''massexcess '' @ show_int z @ '' '' @ show_int a @ '' ''
                    @ format_3f me @ ''\<newline>'') = (Returned, f')"
    by (auto simp: t split: sum.splits)
  from Cons.IH[OF rest] show ?case
    by (simp add: t triple_line_def truncated_def as_double_def z a me
        int_of_float_finite[OF z] int_of_float_finite[OF a])
qed

lemma write_rows_error:
  "list_all (\<lambda>(Z, A, ME). \<not> isna Z \<and> \<not> isna A) rows \<Longrightarrow> fst (write_rows rows f) = Raised e
   \<Longrightarrow> e = OverflowError"
proof (induction rows arbitrary: f)
  case Nil
  then show ?case by simp
next
  case (Cons t rows)
  obtain Z A ME where t: "t = (Z, A, ME)" by (cases t) auto
  from Cons.prems(1) have na: "\<not> isna Z" "\<not> isna A"
    and rest: "list_all (\<lambda>(Z, A, ME). \<not> isna Z \<and> \<not> isna A) rows"
    by (simp_all add: t)
  show ?case
  proof (cases "int_of_float Z")
    case (Inl e')
    then show ?thesis using Cons.prems(2) int_of_float_error[OF Inl na(1)] by (simp add: t)
  next
    case z: (Inr z)
    show ?thesis
    proof (cases "int_of_float A")
      case (Inl e')
      then show ?thesis using Cons.prems(2) z int_of_float_error[OF Inl na(2)] by (simp add: t)
    next
      case a: (Inr a)
      show ?thesis
      proof (cases "py_float ME")
        case (Inl e')
        then show ?thesis using Cons.prems(2) z a py_float_error[OF Inl] by (simp add: t)
      next
        case (Inr me)
        then show ?thesis using Cons.prems(2) z a Cons.IH[OF rest] by (simp add: t)
      qed
    qed
  qed
qed

lemma header_documented:
  "concat (header_writes projectile Z_target A_target l s m)
   = concat (map key_value_line (documented_keys projectile Z_target A_target l s m))"
  by (simp add: header_writes_def documented_keys_def key_value_line_def)

lemma triple_line_massexcess: "triple_line (triple_of lib r) = massexcess_line lib r"
  by (simp add: triple_line_def triple_of_def massexcess_line_def key_value_line_def)

lemma write_input_Returned:
  assumes "df_me lib t = Inr rows"
    and "write_input projectile Z_target A_target l s m (map snd rows) f = (Returned, f')"
  shows "f' = f @ documented_text lib t projectile Z_target A_target l s m
         \<and> list_all (\<lambda>r. finite_float (numeric lib (col_Z r))
                          \<and> finite_float (numeric lib (col_A r))) (filter (coerces lib) t)"
proof -
  from write_rows_Returned[OF assms(2)[unfolded write_input_def]]
  have 1: "f' = foldl (@) f (header_writes projectile Z_target A_target l s m)
                @ concat (map triple_line (map snd rows))"
    and 2: "list_all (\<lambda>(Z, A, ME). finite_float Z \<and> finite_float A) (map snd rows)"
    by simp_all
  from 1 have "f' = f @ documented_text lib t projectile Z_target A_target l s m"
    by (simp add: foldl_append_concat header_documented documented_text_def
        df_me_snd[OF assms(1)] o_def triple_line_massexcess)
  moreover from 2 have "list_all (\<lambda>r. finite_float (numeric lib (col_Z r))
                          \<and> finite_float (numeric lib (col_A r))) (filter (coerces lib) t)"
    by (simp add: df_me_snd[OF assms(1)] list_all_iff triple_of_def)
  ultimately show ?thesis by simp
qed

lemma write_input_error:
  "df_me lib t = Inr rows \<Longrightarrow>
   fst (write_input projectile Z_target A_target l s m (map snd rows) f) = Raised e
   \<Longrightarrow> e = OverflowError"
  unfolding write_input_def using write_rows_error[OF df_me_no_nan] by blast


subsection \<open>The \<^verbatim>\<open>try\<close> statement of \<^verbatim>\<open>make_input\<close>\<close>

lemma make_input_cases:
  "make_input lib nucl_info reactions process l s m runs run_dir_name w =
     (case series_get (map col_Target reactions) process of
        Inl e \<Rightarrow> (Raised e, w)
      | Inr target \<Rightarrow>
      case series_get (map col_Projectile reactions) process of
        Inl e \<Rightarrow> (Raised e, w)
      | Inr projectile \<Rightarrow>
      case iloc0 (filter (\<lambda>r. col_Ydin r = CStr target) nucl_info) of
        Inl e \<Rightarrow> (Raised e, w)
      | Inr row \<Rightarrow>
      case py_int lib (col_Z row) of
        Inl e \<Rightarrow> (Raised e, w)
      | Inr Z_target \<Rightarrow>
      case py_int lib (col_A row) of
        Inl e \<Rightarrow> (Raised e, w)
      | Inr A_target \<Rightarrow>
      case df_me lib nucl_info of
        Inl e \<Rightarrow> (Raised e, w)
      | Inr frame \<Rightarrow>
          try_write w (input_path_of runs run_dir_name) (run_dir_name @ ''_input.txt'')
            (write_input projectile Z_target A_target l s m (map snd frame)))"
  by (simp add: make_input_def try_write_def Let_def split: sum.splits)

lemma make_input_found:
  assumes "series_get (map col_Target reactions) process = Inr target"
    and "series_get (map col_Projectile reactions) process = Inr projectile"
    and "iloc0 (filter (\<lambda>r. col_Ydin r = CStr target) nucl_info) = Inr row"
    and "py_int lib (col_Z row) = Inr Z_target"
    and "py_int lib (col_A row) = Inr A_target"
    and "df_me lib nucl_info = Inr frame"
  shows "make_input lib nucl_info reactions process l s m runs run_dir_name w
         = try_write w (input_path_of runs run_dir_name) (run_dir_name @ ''_input.txt'')
             (write_input projectile Z_target A_target l s m (map snd frame))"
  unfolding make_input_cases using assms by simp

lemma try_write_Returned:
  assumes "try_write w p name body = (Returned, w')"
  shows "\<exists>c. body [] = (Returned, c) \<and> files w' = (files w)(p \<mapsto> c)
          \<and> dirs w' = dirs w \<and> readonly w' = readonly w \<and> workbooks w' = workbooks w
          \<and> today w' = today w
          \<and> (console w' = console w @ [Created_input_file name] \<or>
              console w' = console w @ [Created_input_file name, Warning_overwriting])
          \<and> \<not> has_nul p \<and> \<not> is_file w (butlast p) \<and> is_dir w (butlast p) \<and> \<not> is_dir w p"
  using assms
  unfolding try_write_def with_open_def open_x_def open_w_def print_def is_dir_def is_file_def
  by (auto split: sum.splits prod.splits outcome.splits if_splits)

lemma try_write_existing:
  assumes "files w p = Some c" "\<not> has_nul p" "\<not> is_file w (butlast p)" "is_dir w (butlast p)"
    "\<not> is_dir w p"
    and "body [] = (Returned, c)"
  shows "try_write w p name body
         = (Returned, w\<lparr>console := console w @ [Created_input_file name, Warning_overwriting]\<rparr>)"
proof -
  have "(files w)(p \<mapsto> c) = files w" using assms(1) by (simp add: map_upd_triv)
  then show ?thesis
    using assms
    unfolding try_write_def with_open_def open_x_def open_w_def print_def is_dir_def is_file_def
    by simp
qed

lemma try_write_fresh:
  assumes "\<not> has_nul p" "\<not> is_file w (butlast p)" "is_dir w (butlast p)" "\<not> is_dir w p"
    "\<not> is_file w p" "butlast p \<notin> readonly w" "fst (body []) \<noteq> Raised FileExistsError"
  shows "try_write w p name body
         = (fst (body []), w\<lparr>console := console w @ [Created_input_file name],
                   files := (files w)(p \<mapsto> snd (body []))\<rparr>)"
  using assms
  unfolding try_write_def with_open_def open_x_def print_def is_dir_def is_file_def
  by (cases "body []"; cases "fst (body [])") simp_all

lemma try_write_no_directory:
  assumes "\<not> has_nul p" "\<not> is_file w (butlast p)" "\<not> is_dir w (butlast p)"
  shows "try_write w p name body
         = (Raised FileNotFoundError, w\<lparr>console := console w @ [Created_input_file name]\<rparr>)"
  using assms
  unfolding try_write_def with_open_def open_x_def print_def is_dir_def is_file_def
  by simp

lemma make_input_Returned:
  assumes "make_input lib nucl_info reactions process l s m runs run_dir_name w = (Returned, w')"
  shows "\<exists>target projectile row Z_target A_target.
           series_get (map col_Target reactions) process = Inr target
         \<and> series_get (map col_Projectile reactions) process = Inr projectile
         \<and> iloc0 (filter (\<lambda>r. col_Ydin r = CStr target) nucl_info) = Inr row
         \<and> py_int lib (col_Z row) = Inr Z_target
         \<and> py_int lib (col_A row) = Inr A_target
         \<and> files w' (input_path_of runs run_dir_name)
             = Some (documented_text lib nucl_info projectile Z_target A_target l s m)
         \<and> list_all (\<lambda>r. finite_float (numeric lib (col_Z r))
                          \<and> finite_float (numeric lib (col_A r)))
              (filter (coerces lib) nucl_info)"
proof -
  let ?p = "input_path_of runs run_dir_name"
  from assms obtain target projectile row Z_target A_target frame where
    lk: "series_get (map col_Target reactions) process = Inr target"
        "series_get (map col_Projectile reactions) process = Inr projectile"
        "iloc0 (filter (\<lambda>r. col_Ydin r = CStr target) nucl_info) = Inr row"
        "py_int lib (col_Z row) = Inr Z_target"
        "py_int lib (col_A row) = Inr A_target"
    and fr: "df_me lib nucl_info = Inr frame"
    and tw: "try_write w ?p (run_dir_name @ ''_input.txt'')
               (write_input projectile Z_target A_target l s m (map snd frame))
             = (Returned, w')"
    unfolding make_input_cases by (auto split: sum.splits)
  from try_write_Returned[OF tw] obtain c where
    c: "write_input projectile Z_target A_target l s m (map snd frame) [] = (Returned, c)"
    and f: "files w' = (files w)(?p \<mapsto> c)"
    by blast
  from write_input_Returned[OF fr c] f
  have "files w' ?p = Some (documented_text lib nucl_info projectile Z_target A_target l s m)"
    and "list_all (\<lambda>r. finite_float (numeric lib (col_Z r))
                          \<and> finite_float (numeric lib (col_A r)))
              (filter (coerces lib) nucl_info)"
    by simp_all
  with lk show ?thesis by blast
qed


subsection \<open>The columns \<^verbatim>\<open>make_input\<close> reads\<close>

lemma used_columns_maps:
  "map col_Ydin t = map fst (map used_columns t)"
  "map col_Z t = map (\<lambda>u. fst (snd u)) (map used_columns t)"
  "map col_A t = map (\<lambda>u. fst (snd (snd u))) (map used_columns t)"
  "map col_MEJYFL t = map (\<lambda>u. snd (snd (snd u))) (map used_columns t)"
  by (simp_all add: used_columns_def)

lemma filter_zip_second:
  "length xs = length ys \<Longrightarrow>
   map snd (filter (\<lambda>(x, v). Q v) (zip xs vs)) = map snd (filter (\<lambda>(y, v). Q v) (zip ys vs))"
proof (induction xs ys arbitrary: vs rule: list_induct2)
  case Nil
  then show ?case by simp
next
  case (Cons x xs y ys)
  then show ?case by (cases vs) simp_all
qed

lemma df_me_columns:
  "df_me lib t =
     (case to_numeric_column lib (map col_Z t) of
        Inl e \<Rightarrow> Inl e
      | Inr zs \<Rightarrow>
      case to_numeric_column lib (map col_A t) of
        Inl e \<Rightarrow> Inl e
      | Inr as \<Rightarrow>
      case to_numeric_column lib (map col_MEJYFL t) of
        Inl e \<Rightarrow> Inl e
      | Inr mes \<Rightarrow>
          Inr (filter (\<lambda>(r, v). case v of (Z_num, A_num, ME_num) \<Rightarrow>
                         \<not> isna Z_num \<and> \<not> isna A_num \<and> \<not> isna ME_num)
                 (zip t (zip zs (zip as mes)))))"
proof -
  have "(\<lambda>(r, Z_num, A_num, ME_num). \<not> isna Z_num \<and> \<not> isna A_num \<and> \<not> isna ME_num)
        = (\<lambda>(r :: nuclide, v). case v of (Z_num, A_num, ME_num) \<Rightarrow>
             \<not> isna Z_num \<and> \<not> isna A_num \<and> \<not> isna ME_num)"
    by (simp add: fun_eq_iff)
  then show ?thesis by (simp only: df_me_def)
qed

lemma df_me_used:
  assumes "map used_columns t1 = map used_columns t2"
  shows "map_sum id (map snd) (df_me lib t1) = map_sum id (map snd) (df_me lib t2)"
proof -
  have len: "length t1 = length t2" using assms by (metis length_map)
  have cols: "map col_Z t1 = map col_Z t2" "map col_A t1 = map col_A t2"
    "map col_MEJYFL t1 = map col_MEJYFL t2"
    unfolding used_columns_maps assms by simp_all
  show ?thesis
  proof (cases "to_numeric_column lib (map col_Z t2)")
    case (Inl e)
    then show ?thesis by (simp add: df_me_columns cols)
  next
    case z: (Inr zs)
    show ?thesis
    proof (cases "to_numeric_column lib (map col_A t2)")
      case (Inl e)
      then show ?thesis by (simp add: df_me_columns cols z)
    next
      case a: (Inr as)
      show ?thesis
      proof (cases "to_numeric_column lib (map col_MEJYFL t2)")
        case (Inl e)
        then show ?thesis by (simp add: df_me_columns cols z a)
      next
        case (Inr mes)
        then show ?thesis
          by (simp add: df_me_columns cols z a filter_zip_second[OF len])
      qed
    qed
  qed
qed

lemma target_row_used:
  "(case iloc0 (filter (\<lambda>r. col_Ydin r = CStr target) t) of
      Inl e \<Rightarrow> Inl e | Inr row \<Rightarrow> Inr (col_Z row, col_A row))
   = (case iloc0 (filter (\<lambda>(y, z, a, me). y = CStr target) (map used_columns t)) of
        Inl e \<Rightarrow> Inl e | Inr (y, z, a, me) \<Rightarrow> Inr (z, a))"
  by (induction t) (simp_all add: used_columns_def)

lemma make_input_used:
  "make_input lib nucl_info reactions process l s m runs run_dir_name w =
     (case series_get (map col_Target reactions) process of
        Inl e \<Rightarrow> (Raised e, w)
      | Inr target \<Rightarrow>
      case series_get (map col_Projectile reactions) process of
        Inl e \<Rightarrow> (Raised e, w)
      | Inr projectile \<Rightarrow>
      case (case iloc0 (filter (\<lambda>r. col_Ydin r = CStr target) nucl_info) of
              Inl e \<Rightarrow> Inl e | Inr row \<Rightarrow> Inr (col_Z row, col_A row)) of
        Inl e \<Rightarrow> (Raised e, w)
      | Inr (z, a) \<Rightarrow>
      case py_int lib z of
        Inl e \<Rightarrow> (Raised e, w)
      | Inr Z_target \<Rightarrow>
      case py_int lib a of
        Inl e \<Rightarrow> (Raised e, w)
      | Inr A_target \<Rightarrow>
      case map_sum id (map snd) (df_me lib nucl_info) of
        Inl e \<Rightarrow> (Raised e, w)
      | Inr rows \<Rightarrow>
          try_write w (input_path_of runs run_dir_name) (run_dir_name @ ''_input.txt'')
            (write_input projectile Z_target A_target l s m rows))"
  unfolding make_input_cases by (simp split: sum.splits)


subsection \<open>A row that does not coerce\<close>

lemma df_me_without_row:
  assumes "df_me lib (t1 @ r # t2) = Inr rows" and "\<not> coerces lib r"
  shows "\<exists>rows'. df_me lib (t1 @ t2) = Inr rows' \<and> map snd rows' = map snd rows"
proof -
  from assms(1) have ok: "to_numeric_column lib (map col_Z (t1 @ r # t2)) \<noteq> Inl e"
    "to_numeric_column lib (map col_A (t1 @ r # t2)) \<noteq> Inl e"
    "to_numeric_column lib (map col_MEJYFL (t1 @ r # t2)) \<noteq> Inl e" for e
    by (auto simp: df_me_def split: sum.splits)
  have part: "to_numeric_column lib (xs @ c # ys) = Inr us
              \<Longrightarrow> \<exists>vs. to_numeric_column lib (xs @ ys) = Inr vs" for xs c ys us
    by (induction xs arbitrary: us) (auto split: sum.splits)
  from ok obtain zs as mes where
    "to_numeric_column lib (map col_Z t1 @ col_Z r # map col_Z t2) = Inr zs"
    "to_numeric_column lib (map col_A t1 @ col_A r # map col_A t2) = Inr as"
    "to_numeric_column lib (map col_MEJYFL t1 @ col_MEJYFL r # map col_MEJYFL t2) = Inr mes"
    by (metis map_append list.simps(9) sumE)
  then obtain zs' as' mes' where
    "to_numeric_column lib (map col_Z (t1 @ t2)) = Inr zs'"
    "to_numeric_column lib (map col_A (t1 @ t2)) = Inr as'"
    "to_numeric_column lib (map col_MEJYFL (t1 @ t2)) = Inr mes'"
    using part by (metis map_append)
  then obtain rows' where r': "df_me lib (t1 @ t2) = Inr rows'"
    by (simp add: df_me_def)
  have "map snd rows' = map snd rows"
    unfolding df_me_snd[OF r'] df_me_snd[OF assms(1)] using assms(2) by simp
  with r' show ?thesis by blast
qed

lemma target_row_without_row:
  assumes "col_Ydin r \<noteq> CStr target \<or> list_ex (\<lambda>r'. col_Ydin r' = CStr target) t1"
  shows "iloc0 (filter (\<lambda>r. col_Ydin r = CStr target) (t1 @ r # t2))
         = iloc0 (filter (\<lambda>r. col_Ydin r = CStr target) (t1 @ t2))"
proof (cases "filter (\<lambda>r. col_Ydin r = CStr target) t1")
  case Nil
  then have "\<not> list_ex (\<lambda>r'. col_Ydin r' = CStr target) t1"
    by (simp add: list_ex_iff filter_empty_conv)
  with assms Nil show ?thesis by simp
next
  case (Cons x xs)
  then show ?thesis by simp
qed



subsection \<open>\<^verbatim>\<open>make_dir\<close> and \<^verbatim>\<open>main\<close>\<close>

lemma path_mkdir_ok: "os_mkdir w p = Inr w' \<Longrightarrow> path_mkdir w p ex = (Returned, w')"
  by (subst path_mkdir.simps) simp

lemma path_mkdir_fails:
  "os_mkdir w p = Inl e \<Longrightarrow> e \<noteq> FileNotFoundError \<Longrightarrow> path_mkdir w p False = (Raised e, w)"
  by (subst path_mkdir.simps) simp

lemma os_mkdir_console: "os_mkdir w p = Inr w' \<Longrightarrow> console w' = console w"
  by (auto simp: os_mkdir_def split: if_splits)

lemma os_mkdir_is_dir: "os_mkdir w p = Inr w' \<Longrightarrow> is_dir w' p"
  by (auto simp: os_mkdir_def is_dir_def split: if_splits)

lemma mkdir_single_console: "console (snd (mkdir_single w p ex)) = console w"
  by (auto simp: mkdir_single_def os_mkdir_console split: sum.splits)

lemma mkdir_single_is_dir: "mkdir_single w p ex = (Returned, w') \<Longrightarrow> is_dir w' p"
  by (auto simp: mkdir_single_def os_mkdir_is_dir split: sum.splits if_splits)

lemma path_mkdir_console: "console (snd (path_mkdir w p ex)) = console w"
proof (induction w p ex rule: path_mkdir.induct)
  case (1 w p exist_ok)
  show ?case
  proof (cases "os_mkdir w p")
    case (Inr w')
    then show ?thesis by (subst path_mkdir.simps) (simp add: os_mkdir_console)
  next
    case (Inl e)
    show ?thesis
    proof (cases "e = FileNotFoundError \<and> p \<noteq> []")
      case True
      obtain res w' where r: "path_mkdir w (butlast p) True = (res, w')"
        by (cases "path_mkdir w (butlast p) True") auto
      from 1[OF Inl] True r have c: "console w' = console w" by simp
      show ?thesis
        by (subst path_mkdir.simps, cases res)
           (use Inl True r c mkdir_single_console[of w' p exist_ok] in simp_all)
    next
      case False
      then show ?thesis by (subst path_mkdir.simps) (use Inl in auto)
    qed
  qed
qed

lemma path_mkdir_is_dir: "path_mkdir w p ex = (Returned, w') \<Longrightarrow> is_dir w' p"
proof (cases "os_mkdir w p")
  case (Inr w'')
  assume "path_mkdir w p ex = (Returned, w')"
  with Inr show ?thesis by (subst (asm) path_mkdir.simps) (simp add: os_mkdir_is_dir)
next
  case (Inl e)
  assume r: "path_mkdir w p ex = (Returned, w')"
  show ?thesis
  proof (cases "e = FileNotFoundError")
    case True
    obtain res w1 where p: "path_mkdir w (butlast p) True = (res, w1)"
      by (cases "path_mkdir w (butlast p) True") auto
    from r Inl True p have "mkdir_single w1 p ex = (Returned, w')"
      by (subst (asm) path_mkdir.simps) (cases res; simp split: if_splits)
    then show ?thesis by (rule mkdir_single_is_dir)
  next
    case False
    with r Inl show ?thesis
      by (subst (asm) path_mkdir.simps) (simp split: if_splits)
  qed
qed

lemma os_mkdir_print:
  "os_mkdir (print ev w) p = (case os_mkdir w p of Inl e \<Rightarrow> Inl e | Inr w' \<Rightarrow> Inr (print ev w'))"
  by (simp add: os_mkdir_def print_def is_dir_def is_file_def)

lemma today_print: "today (print ev w) = today w"
  by (simp add: print_def)

lemma make_dir_fst:
  "fst (make_dir projectile target l s m runs w)
   = directory_name_of (today w) projectile target l s m"
  by (simp add: make_dir_def Let_def split: prod.splits)

lemma make_dir_report:
  assumes "path_mkdir (print (To_the_path runs)
             (print (Creating_directory (directory_name_of (today w) projectile target l s m)) w))
             (path_join runs (directory_name_of (today w) projectile target l s m)) False
           = (res, w')"
  shows "make_dir projectile target l s m runs w
         = (directory_name_of (today w) projectile target l s m,
            print (report_of (directory_name_of (today w) projectile target l s m) res) w')"
  using assms by (cases res) (simp_all add: make_dir_def Let_def report_of_def)

lemma make_dir_os_error:
  assumes "os_mkdir w (path_join runs (directory_name_of (today w) projectile target l s m))
           = Inl e"
    and "e \<noteq> FileNotFoundError"
  shows "make_dir projectile target l s m runs w
         = (directory_name_of (today w) projectile target l s m,
            w\<lparr>console := console w @
                [Creating_directory (directory_name_of (today w) projectile target l s m),
                 To_the_path runs,
                 report_of (directory_name_of (today w) projectile target l s m) (Raised e)]\<rparr>)"
proof -
  let ?n = "directory_name_of (today w) projectile target l s m"
  have "os_mkdir (print (To_the_path runs) (print (Creating_directory ?n) w))
          (path_join runs ?n) = Inl e"
    by (simp add: os_mkdir_print assms(1))
  from make_dir_report[OF path_mkdir_fails[OF this assms(2)]]
  show ?thesis by (simp add: print_def)
qed

lemma make_dir_os_ok:
  assumes "os_mkdir w (path_join runs (directory_name_of (today w) projectile target l s m))
           = Inr w'"
  shows "make_dir projectile target l s m runs w
         = (directory_name_of (today w) projectile target l s m,
            w'\<lparr>console := console w @
                [Creating_directory (directory_name_of (today w) projectile target l s m),
                 To_the_path runs,
                 Directory_created (directory_name_of (today w) projectile target l s m)]\<rparr>)"
proof -
  let ?n = "directory_name_of (today w) projectile target l s m"
  have "os_mkdir (print (To_the_path runs) (print (Creating_directory ?n) w))
          (path_join runs ?n)
        = Inr (print (To_the_path runs) (print (Creating_directory ?n) w'))"
    by (simp add: os_mkdir_print assms(1))
  from make_dir_report[OF path_mkdir_ok[OF this]] os_mkdir_console[OF assms]
  show ?thesis by (simp add: print_def report_of_def)
qed

lemma make_dir_console:
  "\<exists>report. console (snd (make_dir projectile target l s m runs w))
     = console w @ [Creating_directory (directory_name_of (today w) projectile target l s m),
                    To_the_path runs, report]
   \<and> (report = Directory_created (directory_name_of (today w) projectile target l s m)
      \<or> report = Directory_exists (directory_name_of (today w) projectile target l s m)
      \<or> report = Permission_denied (directory_name_of (today w) projectile target l s m)
      \<or> (\<exists>e. report = Error_occurred e))"
proof -
  let ?n = "directory_name_of (today w) projectile target l s m"
  let ?w2 = "print (To_the_path runs) (print (Creating_directory ?n) w)"
  obtain res w' where r: "path_mkdir ?w2 (path_join runs ?n) False = (res, w')"
    by (cases "path_mkdir ?w2 (path_join runs ?n) False") auto
  have c: "console w' = console w @ [Creating_directory ?n, To_the_path runs]"
    using path_mkdir_console[of ?w2 "path_join runs ?n" False] r by (simp add: print_def)
  show ?thesis
    unfolding make_dir_report[OF r]
    by (cases res) (use c in \<open>auto simp: print_def report_of_def\<close>)
qed

lemma main_process_continues:
  assumes "parse_data w (path_parts (arg_data a)) = Inr (nucl_info, reactions)"
    and "series_get (map col_Target reactions) process = Inr target"
    and "series_get (map col_Projectile reactions) process = Inr projectile"
  shows "main_process lib process a w
         = make_input lib nucl_info reactions process (arg_ldmodel a) (arg_strength a)
             (arg_massmodel a) (path_parts (arg_runs a))
             (directory_name_of (today w) projectile target (arg_ldmodel a) (arg_strength a)
                (arg_massmodel a))
             (snd (make_dir projectile target (arg_ldmodel a) (arg_strength a) (arg_massmodel a)
                     (path_parts (arg_runs a))
                     (print (Nuclear_information nucl_info) (print (Listed_processes reactions)
                        (print (Printed projectile) (print (Printed target) w))))))"
proof -
  let ?w4 = "print (Nuclear_information nucl_info) (print (Listed_processes reactions)
                        (print (Printed projectile) (print (Printed target) w)))"
  have n: "fst (make_dir projectile target (arg_ldmodel a) (arg_strength a) (arg_massmodel a)
                     (path_parts (arg_runs a)) ?w4)
           = directory_name_of (today w) projectile target (arg_ldmodel a) (arg_strength a)
                (arg_massmodel a)"
    by (simp add: make_dir_fst today_print)
  show ?thesis
    unfolding main_process_def Let_def using assms n
    by (auto split: prod.splits)
qed

lemma main_process_out_of_range:
  assumes "parse_data w (path_parts (arg_data a)) = Inr (nucl_info, reactions)"
    and "process < 0 \<or> int (length reactions) \<le> process"
  shows "main_process lib process a w = (Raised KeyError, w)"
  unfolding main_process_def Let_def
  using assms(1) series_get_out_of_range[OF assms(2), of col_Target] by simp



subsection \<open>Runs on the concrete tables\<close>

lemmas show_simps = show_nat.simps digit_char_def show_int_def

lemma scenario_name:
  "directory_name_of \<lparr>day = 1, month = 1, year = 2025\<rparr> ''p'' ''56Ni'' 5 8 2
   = ''Run-010125_p56Ni-582''"
  by (simp add: directory_name_of_def strftime_dmy_def pad2_def show_simps)

lemma scenario_paths:
  "path_parts ''runs'' = [''runs'']"
  "path_parts ''data.xlsx'' = [''data.xlsx'']"
  "path_join [''runs''] ''Run-010125_p56Ni-582'' = [''runs'', ''Run-010125_p56Ni-582'']"
  "path_join [''runs'', ''Run-010125_p56Ni-582''] (''Run-010125_p56Ni-582'' @ ''_input.txt'')
   = [''runs'', ''Run-010125_p56Ni-582'', ''Run-010125_p56Ni-582_input.txt'']"
  by (simp_all add: path_parts_def path_join_def)

lemma scenario_input_path:
  "input_path_of [''runs''] ''Run-010125_p56Ni-582'' = scenario_path"
  unfolding input_path_of_def scenario_paths scenario_path_def by simp

lemma scenario_path_no_nul: "\<not> has_nul scenario_path"
  by (simp add: has_nul_def scenario_path_def)

lemma make_input_run_world:
  assumes "series_get (map col_Target reactions) process = Inr target"
    and "series_get (map col_Projectile reactions) process = Inr projectile"
    and "iloc0 (filter (\<lambda>r. col_Ydin r = CStr target) t) = Inr row"
    and "py_int lib (col_Z row) = Inr Z_target"
    and "py_int lib (col_A row) = Inr A_target"
    and "df_me lib t = Inr frame"
    and "write_input projectile Z_target A_target l s m (map snd frame) [] = (res, c)"
    and "res \<noteq> Raised FileExistsError"
  shows "make_input lib t reactions process l s m [''runs''] ''Run-010125_p56Ni-582''
           (run_world\<lparr>console := cs\<rparr>)
         = (res, run_world\<lparr>console := cs @ [Created_input_file ''Run-010125_p56Ni-582_input.txt''],
                   files := [scenario_path \<mapsto> c]\<rparr>)"
proof -
  let ?body = "write_input projectile Z_target A_target l s m (map snd frame)"
  let ?w = "run_world\<lparr>console := cs\<rparr>"
  have f: "files ?w = Map.empty"
    by (simp add: run_world_def scenario_world_def world_with_def)
  have "try_write ?w scenario_path ''Run-010125_p56Ni-582_input.txt'' ?body
        = (fst (?body []),
           ?w\<lparr>console := console ?w @ [Created_input_file ''Run-010125_p56Ni-582_input.txt''],
               files := (files ?w)(scenario_path \<mapsto> snd (?body []))\<rparr>)"
    by (rule try_write_fresh[OF scenario_path_no_nul])
       (simp_all add: assms(7,8) scenario_path_def run_world_def scenario_world_def world_with_def
          is_dir_def is_file_def)
  then show ?thesis
    unfolding make_input_found[OF assms(1-6)] scenario_input_path
    by (simp add: assms(7) f)
qed

lemma run_world_console: "run_world\<lparr>console := []\<rparr> = run_world"
  by (simp add: run_world_def scenario_world_def world_with_def)

lemma p_Ni56_lookups:
  "series_get (map col_Target [p_Ni56]) 0 = Inr ''56Ni''"
  "series_get (map col_Projectile [p_Ni56]) 0 = Inr ''p''"
  by (simp_all add: series_get_def p_Ni56_def)

lemma Ni56_lookups:
  "iloc0 (filter (\<lambda>r. col_Ydin r = CStr ''56Ni'') [Ni56]) = Inr Ni56"
  "py_int lib (col_Z Ni56) = Inr 28"
  "py_int lib (col_A Ni56) = Inr 56"
  by (simp_all add: Ni56_def)

lemma Ni56_rows:
  "df_me lib [Ni56]
   = Inr [(Ni56, Finite False 28 0, Finite False 56 0, Finite True 7585750622352179 (- 47))]"
  by (simp add: df_me_def Ni56_def)

lemma header_text:
  "foldl (@) [] (header_writes ''p'' 28 56 5 8 2) = scenario_header"
  by (simp add: header_writes_def show_simps scenario_header_def)

lemma scenario_text:
  "write_input ''p'' 28 56 5 8 2
     (map snd [(Ni56, Finite False 28 0, Finite False 56 0,
                Finite True 7585750622352179 (- 47))]) []
   = (Returned, scenario_file)"
  unfolding write_input_def header_text scenario_file_def
  by (simp add: show_simps round_thousandths_def pad3_def Let_def)

lemma scenario_make_input:
  "make_input lib [Ni56] [p_Ni56] 0 5 8 2 [''runs''] ''Run-010125_p56Ni-582''
     (run_world\<lparr>console := cs\<rparr>)
   = (Returned, run_world\<lparr>console := cs @ [Created_input_file ''Run-010125_p56Ni-582_input.txt''],
        files := [scenario_path \<mapsto> scenario_file]\<rparr>)"
  by (rule make_input_run_world[OF p_Ni56_lookups Ni56_lookups Ni56_rows scenario_text]) simp

lemma scenario_make_dir:
  "make_dir ''p'' ''56Ni'' 5 8 2 [''runs''] ((world_with book)\<lparr>console := c\<rparr>)
   = (''Run-010125_p56Ni-582'',
      (world_with book)\<lparr>console := c @ [Creating_directory ''Run-010125_p56Ni-582'',
                                       To_the_path [''runs''],
                                       Directory_created ''Run-010125_p56Ni-582''],
        dirs := {[''runs'', ''Run-010125_p56Ni-582''], [''runs'']}\<rparr>)"
proof -
  have t: "today ((world_with book)\<lparr>console := c\<rparr>) = \<lparr>day = 1, month = 1, year = 2025\<rparr>"
    by (simp add: world_with_def)
  have os: "os_mkdir ((world_with book)\<lparr>console := c'\<rparr>) [''runs'', ''Run-010125_p56Ni-582'']
      = Inr ((world_with book)\<lparr>console := c',
               dirs := {[''runs'', ''Run-010125_p56Ni-582''], [''runs'']}\<rparr>)" for c'
    by (simp add: world_with_def os_mkdir_def is_dir_def is_file_def has_nul_def)
  show ?thesis
    unfolding make_dir_def t scenario_name scenario_paths Let_def print_def
    by (simp add: path_mkdir_ok[OF os])
qed

lemma world_with_console: "(world_with book)\<lparr>console := []\<rparr> = world_with book"
  by (simp add: world_with_def)

lemma scenario_parse:
  "parse_data scenario_world (path_parts (arg_data scenario_args)) = Inr ([Ni56], [p_Ni56])"
  by (simp add: scenario_args_def scenario_paths parse_data_def scenario_world_def world_with_def)

lemma scenario_args_values:
  "arg_ldmodel scenario_args = 5" "arg_strength scenario_args = 8"
  "arg_massmodel scenario_args = 2" "path_parts (arg_runs scenario_args) = [''runs'']"
  by (simp_all add: scenario_args_def scenario_paths)

lemma scenario_today: "today scenario_world = \<lparr>day = 1, month = 1, year = 2025\<rparr>"
  by (simp add: scenario_world_def world_with_def)

lemma scenario_main:
  "main lib scenario_args scenario_world
   = (Returned, run_world\<lparr>console :=
        [Printed ''56Ni'', Printed ''p'', Listed_processes [p_Ni56], Nuclear_information [Ni56],
         Creating_directory ''Run-010125_p56Ni-582'', To_the_path [''runs''],
         Directory_created ''Run-010125_p56Ni-582'',
         Created_input_file ''Run-010125_p56Ni-582_input.txt''],
        files := [scenario_path \<mapsto> scenario_file]\<rparr>)"
proof -
  have w: "print (Nuclear_information [Ni56]) (print (Listed_processes [p_Ni56])
             (print (Printed ''p'') (print (Printed ''56Ni'') scenario_world)))
           = (world_with ([Ni56], [p_Ni56]))\<lparr>console := [Printed ''56Ni'', Printed ''p'',
                Listed_processes [p_Ni56], Nuclear_information [Ni56]]\<rparr>"
    by (simp add: print_def scenario_world_def world_with_def)
  have r: "world_with ([Ni56], [p_Ni56])
       \<lparr>console := c, dirs := {[''runs'', ''Run-010125_p56Ni-582''], [''runs'']}\<rparr>
       = run_world\<lparr>console := c\<rparr>" for c
    by (simp add: run_world_def scenario_world_def)
  show ?thesis
    unfolding main_def main_process_continues[OF scenario_parse p_Ni56_lookups] scenario_today
      scenario_args_values scenario_name w scenario_make_dir snd_conv r scenario_make_input
    by simp
qed

lemma locked_make_dir:
  "make_dir ''p'' ''56Ni'' 5 8 2 [''runs''] (locked_world\<lparr>console := c\<rparr>)
   = (''Run-010125_p56Ni-582'',
      locked_world\<lparr>console := c @ [Creating_directory ''Run-010125_p56Ni-582'',
                                    To_the_path [''runs''],
                                    Permission_denied ''Run-010125_p56Ni-582'']\<rparr>)"
proof -
  have t: "today (locked_world\<lparr>console := c\<rparr>) = \<lparr>day = 1, month = 1, year = 2025\<rparr>"
    by (simp add: locked_world_def scenario_world_def world_with_def)
  have os: "os_mkdir (locked_world\<lparr>console := c'\<rparr>) [''runs'', ''Run-010125_p56Ni-582'']
            = Inl PermissionError" for c'
    by (simp add: locked_world_def scenario_world_def world_with_def os_mkdir_def is_dir_def
        is_file_def has_nul_def)
  show ?thesis
    unfolding make_dir_def t scenario_name scenario_paths Let_def print_def
    by (simp add: path_mkdir_fails[OF os])
qed

lemma locked_make_input:
  "make_input lib [Ni56] [p_Ni56] 0 5 8 2 [''runs''] ''Run-010125_p56Ni-582''
     (locked_world\<lparr>console := c\<rparr>)
   = (Raised FileNotFoundError,
      locked_world\<lparr>console := c @ [Created_input_file ''Run-010125_p56Ni-582_input.txt'']\<rparr>)"
proof -
  have "try_write (locked_world\<lparr>console := c\<rparr>) scenario_path n body
        = (Raised FileNotFoundError,
           (locked_world\<lparr>console := c\<rparr>)\<lparr>console := console (locked_world\<lparr>console := c\<rparr>)
              @ [Created_input_file n]\<rparr>)" for n body
    by (rule try_write_no_directory[OF scenario_path_no_nul])
       (simp_all add: scenario_path_def locked_world_def scenario_world_def world_with_def
          is_dir_def is_file_def)
  then show ?thesis
    unfolding make_input_found[OF p_Ni56_lookups Ni56_lookups Ni56_rows] scenario_input_path
    by simp
qed

lemma not_a_number: "decimal_nat ''N/A'' = None"
  by (simp add: decimal_nat_def is_digit_def)



section \<open>The claims\<close>

subsection \<open>C8: the documented scenario\<close>

text \<open>
  Claim C8. With the one-row nuclide table 56Ni (Z 28, A 56, mass excesses -53.9 and
  -54.0), the one-row reaction table p + 56Ni, the parameters (5, 8, 2) and the date
  1 January 2025, the directory name is \<^verbatim>\<open>Run-010125_p56Ni-582\<close>, the run returns, and the
  file it writes in that directory holds the lines \<^verbatim>\<open>element 28\<close>, \<^verbatim>\<open>mass 56\<close> and
  \<^verbatim>\<open>massexcess 28 56 -53.900\<close>. This holds whatever the library does with text, since no
  cell of the scenario is text.
\<close>

theorem scenario_A:
  "fst (make_dir ''p'' ''56Ni'' 5 8 2 [''runs''] scenario_world) = ''Run-010125_p56Ni-582''
   \<and> fst (main lib scenario_args scenario_world) = Returned
   \<and> files (snd (main lib scenario_args scenario_world))
        [''runs'', ''Run-010125_p56Ni-582'', ''Run-010125_p56Ni-582_input.txt'']
      = Some scenario_file
   \<and> ''element 28'' \<in> set (split_on CHR ''\<newline>'' scenario_file)
   \<and> ''mass 56'' \<in> set (split_on CHR ''\<newline>'' scenario_file)
   \<and> ''massexcess 28 56 -53.900'' \<in> set (split_on CHR ''\<newline>'' scenario_file)"
proof -
  have 1: "fst (make_dir ''p'' ''56Ni'' 5 8 2 [''runs''] scenario_world) = ''Run-010125_p56Ni-582''"
    by (simp only: make_dir_fst scenario_today scenario_name)
  have 2: "split_on CHR ''\<newline>'' scenario_file
           = [''energy 0.1'', ''projectile p'', ''element 28'', ''mass 56'', ''ldmodel 5'',
              ''strength 8'', ''massmodel 2'', ''astro y'', ''transeps 1e-25'', ''xseps 1e-25'',
              ''popeps 1e-25'', ''gnorm y'', ''outlevels y'', ''outdensity y'', ''outgamma y'',
              ''expmass y'', ''massexcess 28 56 -53.900'', []]"
    by (simp add: scenario_file_def scenario_header_def)
  show ?thesis
    unfolding scenario_main 2 using 1 by (simp add: scenario_path_def)
qed



subsection \<open>C3: the name of the run directory\<close>

text \<open>
  Claim C3 says the name is \<^verbatim>\<open>Run-<DDMMYY>-<projectile><target>-<ldmodel><strength><massmodel>\<close>,
  with a hyphen after the date. \<^verbatim>\<open>make_dir\<close> puts an underscore there: on 1 January 2025,
  for p + 56Ni with (5, 8, 2), the name is not \<^verbatim>\<open>Run-010125-p56Ni-582\<close>.
\<close>

theorem make_dir_name_hyphen_counterexample:
  "fst (make_dir ''p'' ''56Ni'' 5 8 2 [''runs''] scenario_world)
   \<noteq> ''Run-'' @ ''010125'' @ ''-'' @ ''p'' @ ''56Ni'' @ ''-'' @ ''5'' @ ''8'' @ ''2''"
proof -
  have "fst (make_dir ''p'' ''56Ni'' 5 8 2 [''runs''] scenario_world) = ''Run-010125_p56Ni-582''"
    by (simp only: make_dir_fst scenario_today scenario_name)
  then show ?thesis by simp
qed

text \<open>
  Claim C3, amended. For every projectile, target, parameters and date (day at most 31,
  month at most 12), the name \<^verbatim>\<open>make_dir\<close> returns is \<^verbatim>\<open>Run-\<close>, the two digits of the
  day, of the month and of the year within its century, an underscore, the projectile,
  the target, a hyphen, and the three parameters in decimal.
\<close>

theorem make_dir_name:
  assumes "day (today w) \<le> 31" and "month (today w) \<le> 12"
  shows "fst (make_dir projectile target l s m runs w)
         = ''Run-'' @ two_digits (day (today w)) @ two_digits (month (today w))
             @ two_digits (year (today w) mod 100)
             @ ''_'' @ projectile @ target @ ''-'' @ show_int l @ show_int s @ show_int m"
  using assms
  by (simp add: make_dir_fst directory_name_of_def strftime_dmy_def pad2_two_digits)

theorem make_dir_name_witness:
  "day (today scenario_world) \<le> 31 \<and> month (today scenario_world) \<le> 12
   \<and> fst (make_dir ''p'' ''56Ni'' 5 8 2 [''runs''] scenario_world) = ''Run-010125_p56Ni-582''"
proof -
  have d: "day (today scenario_world) \<le> 31" and m: "month (today scenario_world) \<le> 12"
    by (simp_all add: scenario_today)
  from make_dir_name[OF d m, of "''p''" "''56Ni''" 5 8 2 "[''runs'']"]
  have "fst (make_dir ''p'' ''56Ni'' 5 8 2 [''runs''] scenario_world) = ''Run-010125_p56Ni-582''"
    by (simp add: scenario_today two_digits_def show_simps)
  with d m show ?thesis by simp
qed


subsection \<open>C4: a reaction index that is out of range\<close>

text \<open>
  Claim C4 says that with an index out of range the run directory is created before the
  lookup fails and stays behind. \<^verbatim>\<open>main\<close> looks the target and the projectile up itself,
  to name the directory, before it calls \<^verbatim>\<open>make_dir\<close>: with index 5 and three reactions
  the run raises KeyError and no directory has been created.
\<close>

theorem main_out_of_range_counterexample:
  "fst (main_process example_lib 5 scenario_args three_reactions_world) = Raised KeyError
   \<and> dirs (snd (main_process example_lib 5 scenario_args three_reactions_world)) = {[''runs'']}
   \<and> [''runs'', ''Run-010125_p56Ni-582'']
       \<notin> dirs (snd (main_process example_lib 5 scenario_args three_reactions_world))"
proof -
  have p: "parse_data three_reactions_world (path_parts (arg_data scenario_args))
           = Inr ([Ni56], [p_Ni56, p_Ni56, p_Ni56])"
    by (simp add: scenario_args_def scenario_paths parse_data_def three_reactions_world_def
        world_with_def)
  have "main_process example_lib 5 scenario_args three_reactions_world
        = (Raised KeyError, three_reactions_world)"
    by (rule main_process_out_of_range[OF p]) simp
  then show ?thesis by (simp add: three_reactions_world_def world_with_def)
qed

text \<open>
  Claim C4, amended. When the reaction index is out of range for the reaction table, the
  run fails with KeyError at the lookup in \<^verbatim>\<open>main\<close>, which comes before the directory is
  created: the world is left as it was, with no run directory and no input file. (For
  \<^verbatim>\<open>main\<close> itself, whose index is 0, that is the case of an empty reaction table.)
  \<^verbatim>\<open>make_input\<close> called on its own with such an index fails in the same way before it
  touches a file, in whatever world it is called.
\<close>

theorem main_out_of_range:
  assumes "parse_data w (path_parts (arg_data a)) = Inr (nucl_info, reactions)"
    and "process < 0 \<or> int (length reactions) \<le> process"
  shows "main_process lib process a w = (Raised KeyError, w)
         \<and> (process = 0 \<longrightarrow> main lib a w = (Raised KeyError, w))
         \<and> make_input lib nucl_info reactions process l s m runs run_dir_name w'
             = (Raised KeyError, w')"
proof -
  have 1: "main_process lib process a w = (Raised KeyError, w)"
    by (rule main_process_out_of_range[OF assms])
  have 2: "make_input lib nucl_info reactions process l s m runs run_dir_name w'
           = (Raised KeyError, w')"
    unfolding make_input_cases
    using series_get_out_of_range[OF assms(2), of col_Target] by simp
  from 1 2 show ?thesis by (auto simp: main_def)
qed

theorem main_out_of_range_witness:
  "parse_data three_reactions_world (path_parts (arg_data scenario_args))
     = Inr ([Ni56], [p_Ni56, p_Ni56, p_Ni56])
   \<and> int (length [p_Ni56, p_Ni56, p_Ni56]) \<le> 5
   \<and> main_process example_lib 5 scenario_args three_reactions_world
       = (Raised KeyError, three_reactions_world)
   \<and> make_input example_lib [Ni56] [p_Ni56, p_Ni56, p_Ni56] 5 5 8 2 [''runs'']
         ''Run-010125_p56Ni-582'' run_world
       = (Raised KeyError, run_world)"
proof -
  have p: "parse_data three_reactions_world (path_parts (arg_data scenario_args))
           = Inr ([Ni56], [p_Ni56, p_Ni56, p_Ni56])"
    by (simp add: scenario_args_def scenario_paths parse_data_def three_reactions_world_def
        world_with_def)
  have r: "(5::int) < 0 \<or> int (length [p_Ni56, p_Ni56, p_Ni56]) \<le> 5" by simp
  from main_out_of_range[OF p r, of example_lib 5 8 2 "[''runs'']" "''Run-010125_p56Ni-582''"
      run_world] p
  show ?thesis by simp
qed



subsection \<open>C5: a target that no nuclide row carries\<close>

text \<open>
  Claim C5. When the target of the selected reaction equals the symbol of no row of the
  nuclide table, \<^verbatim>\<open>make_input\<close> raises IndexError (the empty selection has no first row)
  and leaves the world as it found it: nothing is opened, nothing is written.
\<close>

theorem make_input_no_match:
  assumes "series_get (map col_Target reactions) process = Inr target"
    and "filter (\<lambda>r. col_Ydin r = CStr target) nucl_info = []"
  shows "make_input lib nucl_info reactions process l s m runs run_dir_name w
         = (Raised IndexError, w)"
proof -
  from series_get_other_column[OF assms(1), of col_Projectile] obtain projectile where
    "series_get (map col_Projectile reactions) process = Inr projectile"
    by blast
  then show ?thesis
    unfolding make_input_cases using assms by simp
qed

theorem make_input_no_match_witness:
  "series_get (map col_Target [p_Ni58]) 0 = Inr ''58Ni''
   \<and> filter (\<lambda>r. col_Ydin r = CStr ''58Ni'') [Ni56] = []
   \<and> make_input example_lib [Ni56] [p_Ni58] 0 5 8 2 [''runs''] ''Run-010125_p56Ni-582'' run_world
       = (Raised IndexError, run_world)"
proof -
  have t: "series_get (map col_Target [p_Ni58]) 0 = Inr ''58Ni''"
    by (simp add: series_get_def p_Ni58_def)
  have f: "filter (\<lambda>r. col_Ydin r = CStr ''58Ni'') [Ni56] = []"
    by (simp add: Ni56_def)
  from make_input_no_match[OF t f] t f show ?thesis by simp
qed


subsection \<open>C6: writing the same file twice\<close>

text \<open>
  Claim C6. When \<^verbatim>\<open>make_input\<close> has returned, calling it again with the same arguments
  returns too and changes nothing but the console, where it adds the announcement and the
  overwrite warning: the second call finds the file, takes the overwrite branch and
  writes the same text into it, so every file holds what it held after the first call.
\<close>

theorem make_input_twice:
  assumes "make_input lib nucl_info reactions process l s m runs run_dir_name w = (Returned, w')"
  shows "make_input lib nucl_info reactions process l s m runs run_dir_name w'
         = (Returned, w'\<lparr>console := console w' @
              [Created_input_file (run_dir_name @ ''_input.txt''), Warning_overwriting]\<rparr>)
         \<and> files w' (input_path_of runs run_dir_name) \<noteq> None"
proof -
  let ?p = "input_path_of runs run_dir_name"
  let ?n = "run_dir_name @ ''_input.txt''"
  from assms obtain target projectile row Z_target A_target frame where
    lk: "series_get (map col_Target reactions) process = Inr target"
        "series_get (map col_Projectile reactions) process = Inr projectile"
        "iloc0 (filter (\<lambda>r. col_Ydin r = CStr target) nucl_info) = Inr row"
        "py_int lib (col_Z row) = Inr Z_target"
        "py_int lib (col_A row) = Inr A_target"
        "df_me lib nucl_info = Inr frame"
    and tw: "try_write w ?p ?n
               (write_input projectile Z_target A_target l s m (map snd frame))
             = (Returned, w')"
    unfolding make_input_cases by (auto split: sum.splits)
  let ?body = "write_input projectile Z_target A_target l s m (map snd frame)"
  from try_write_Returned[OF tw] obtain c where
    c: "?body [] = (Returned, c)" and f: "files w' = (files w)(?p \<mapsto> c)"
    and d: "dirs w' = dirs w"
    and nul: "\<not> has_nul ?p"
    and par: "\<not> is_file w (butlast ?p)" "is_dir w (butlast ?p)" "\<not> is_dir w ?p"
    by blast
  have ne: "?p \<noteq> []" using par(3) by (auto simp: is_dir_def)
  then have "length (butlast ?p) < length ?p" by simp
  then have bl: "butlast ?p \<noteq> ?p" by (metis less_irrefl)
  have 1: "files w' ?p = Some c" by (simp add: f)
  have 2: "\<not> is_file w' (butlast ?p)" using par(1) bl by (simp add: is_file_def f)
  have 3: "is_dir w' (butlast ?p)" using par(2) by (simp add: is_dir_def d)
  have 4: "\<not> is_dir w' ?p" using par(3) by (simp add: is_dir_def d)
  show ?thesis
    unfolding make_input_found[OF lk]
    using try_write_existing[where body = "?body", OF 1 nul 2 3 4 c] 1 by simp
qed

theorem make_input_twice_witness:
  "make_input example_lib [Ni56] [p_Ni56] 0 5 8 2 [''runs''] ''Run-010125_p56Ni-582'' run_world
     = (Returned, run_world\<lparr>console := [Created_input_file ''Run-010125_p56Ni-582_input.txt''],
                     files := [scenario_path \<mapsto> scenario_file]\<rparr>)
   \<and> make_input example_lib [Ni56] [p_Ni56] 0 5 8 2 [''runs''] ''Run-010125_p56Ni-582''
        (run_world\<lparr>console := [Created_input_file ''Run-010125_p56Ni-582_input.txt''],
                     files := [scenario_path \<mapsto> scenario_file]\<rparr>)
     = (Returned, run_world\<lparr>console := [Created_input_file ''Run-010125_p56Ni-582_input.txt'',
                       Created_input_file ''Run-010125_p56Ni-582_input.txt'', Warning_overwriting],
                     files := [scenario_path \<mapsto> scenario_file]\<rparr>)"
proof -
  have 1: "make_input example_lib [Ni56] [p_Ni56] 0 5 8 2 [''runs''] ''Run-010125_p56Ni-582''
             run_world
           = (Returned, run_world\<lparr>console := [Created_input_file ''Run-010125_p56Ni-582_input.txt''],
                     files := [scenario_path \<mapsto> scenario_file]\<rparr>)"
    using scenario_make_input[of example_lib "[]"] by (simp add: run_world_console)
  from make_input_twice[OF 1] 1 show ?thesis by simp
qed


subsection \<open>C9: a target row whose Z or A is no integer\<close>

text \<open>
  Claim C9. When \<^verbatim>\<open>int\<close> raises on the Z or on the A of the first row that carries the
  target symbol, \<^verbatim>\<open>make_input\<close> raises that error (ValueError or OverflowError) and leaves
  the world as it found it: it fails before it opens a file. A row that fails coercion
  in the frame of mass excesses, in contrast, is only left out of that frame (and when
  building the frame raises, it raises OverflowError, for an integer beyond the doubles).
\<close>

theorem make_input_target_not_integer:
  assumes "series_get (map col_Target reactions) process = Inr target"
    and "iloc0 (filter (\<lambda>r. col_Ydin r = CStr target) nucl_info) = Inr row"
    and "(\<exists>e. py_int lib (col_Z row) = Inl e) \<or> (\<exists>e. py_int lib (col_A row) = Inl e)"
  shows "(\<exists>e. make_input lib nucl_info reactions process l s m runs run_dir_name w = (Raised e, w)
              \<and> (e = ValueError \<or> e = OverflowError))
         \<and> (case df_me lib nucl_info of
               Inl e \<Rightarrow> e = OverflowError
             | Inr rows \<Rightarrow> \<forall>r. \<not> coerces lib r \<longrightarrow> r \<notin> fst ` set rows)"
proof -
  from series_get_other_column[OF assms(1), of col_Projectile] obtain projectile where
    p: "series_get (map col_Projectile reactions) process = Inr projectile"
    by blast
  have "\<exists>e. make_input lib nucl_info reactions process l s m runs run_dir_name w = (Raised e, w)
              \<and> (e = ValueError \<or> e = OverflowError)"
  proof (cases "py_int lib (col_Z row)")
    case (Inl e)
    then show ?thesis
      unfolding make_input_cases using assms(1,2) p py_int_error[OF Inl] by simp
  next
    case (Inr z)
    with assms(3) obtain e where e: "py_int lib (col_A row) = Inl e" by auto
    show ?thesis
      unfolding make_input_cases using assms(1,2) p Inr e py_int_error[OF e] by simp
  qed
  moreover have "case df_me lib nucl_info of
               Inl e \<Rightarrow> e = OverflowError
             | Inr rows \<Rightarrow> \<forall>r. \<not> coerces lib r \<longrightarrow> r \<notin> fst ` set rows"
  proof (cases "df_me lib nucl_info")
    case (Inl e)
    then show ?thesis by (simp add: df_me_error[OF Inl])
  next
    case (Inr rows)
    have "fst ` set rows = set (filter (coerces lib) nucl_info)"
      using df_me_fst[OF Inr] by (metis set_map)
    with Inr show ?thesis by simp
  qed
  ultimately show ?thesis by blast
qed

theorem make_input_target_not_integer_witness:
  "series_get (map col_Target [p_Ni56]) 0 = Inr ''56Ni''
   \<and> iloc0 (filter (\<lambda>r. col_Ydin r = CStr ''56Ni'') [Ni56_na]) = Inr Ni56_na
   \<and> py_int example_lib (col_Z Ni56_na) = Inl ValueError
   \<and> make_input example_lib [Ni56_na] [p_Ni56] 0 5 8 2 [''runs''] ''Run-010125_p56Ni-582''
        run_world
      = (Raised ValueError, run_world)
   \<and> (\<exists>rows. df_me example_lib [Ni56_na] = Inr rows \<and> Ni56_na \<notin> fst ` set rows)"
proof -
  have r: "iloc0 (filter (\<lambda>r. col_Ydin r = CStr ''56Ni'') [Ni56_na]) = Inr Ni56_na"
    by (simp add: Ni56_na_def Ni56_def)
  have z: "py_int example_lib (col_Z Ni56_na) = Inl ValueError"
    by (simp add: Ni56_na_def example_lib_def not_a_number)
  then have h: "(\<exists>e. py_int example_lib (col_Z Ni56_na) = Inl e)
                \<or> (\<exists>e. py_int example_lib (col_A Ni56_na) = Inl e)"
    by blast
  have c: "\<not> coerces example_lib Ni56_na"
    by (simp add: coerces_def numeric_def Ni56_na_def example_lib_def not_a_number)
  have m: "make_input example_lib [Ni56_na] [p_Ni56] 0 5 8 2 [''runs''] ''Run-010125_p56Ni-582''
             run_world
           = (Raised ValueError, run_world)"
    unfolding make_input_cases using p_Ni56_lookups r z by simp
  have d: "df_me example_lib [Ni56_na] = Inr []"
    by (simp add: df_me_def Ni56_na_def Ni56_def example_lib_def not_a_number)
  from make_input_target_not_integer[OF p_Ni56_lookups(1) r h, of 5 8 2 "[''runs'']"
      "''Run-010125_p56Ni-582''" run_world] c
  have "\<exists>rows. df_me example_lib [Ni56_na] = Inr rows \<and> Ni56_na \<notin> fst ` set rows"
    unfolding d by simp
  with p_Ni56_lookups(1) r z m show ?thesis by simp
qed


subsection \<open>C10: the columns N and MEAME20 are not read\<close>

text \<open>
  Claim C10. Two nuclide tables that agree, row by row, on Ydin, Z, A and MEJYFL give the
  same outcome and the same world under \<^verbatim>\<open>make_input\<close>, whatever their N and MEAME20
  columns hold: the file written is the same, byte for byte.
\<close>

theorem make_input_ignores_N_and_MEAME20:
  assumes "map used_columns t1 = map used_columns t2"
  shows "make_input lib t1 reactions process l s m runs run_dir_name w
         = make_input lib t2 reactions process l s m runs run_dir_name w"
  unfolding make_input_used target_row_used df_me_used[OF assms] assms ..

theorem make_input_ignores_N_and_MEAME20_witness:
  "map used_columns [Ni56] = map used_columns [Ni56_other]
   \<and> col_N Ni56 \<noteq> col_N Ni56_other \<and> col_MEAME20 Ni56 \<noteq> col_MEAME20 Ni56_other
   \<and> make_input example_lib [Ni56] [p_Ni56] 0 5 8 2 [''runs''] ''Run-010125_p56Ni-582'' run_world
       = make_input example_lib [Ni56_other] [p_Ni56] 0 5 8 2 [''runs''] ''Run-010125_p56Ni-582''
           run_world"
proof -
  have u: "map used_columns [Ni56] = map used_columns [Ni56_other]"
    by (simp add: used_columns_def Ni56_other_def)
  have d: "col_N Ni56 \<noteq> col_N Ni56_other" "col_MEAME20 Ni56 \<noteq> col_MEAME20 Ni56_other"
    by (simp_all add: Ni56_other_def Ni56_def)
  from make_input_ignores_N_and_MEAME20[OF u] u d show ?thesis by simp
qed



subsection \<open>C7: the name is returned whatever happens to the directory\<close>

lemma os_mkdir_frame: "os_mkdir w p = Inr w' \<Longrightarrow> w' = w\<lparr>dirs := insert p (dirs w)\<rparr>"
  by (auto simp: os_mkdir_def split: if_splits)

lemma mkdir_single_frame:
  "files (snd (mkdir_single w p ex)) = files w
   \<and> readonly (snd (mkdir_single w p ex)) = readonly w
   \<and> workbooks (snd (mkdir_single w p ex)) = workbooks w
   \<and> today (snd (mkdir_single w p ex)) = today w
   \<and> dirs w \<subseteq> dirs (snd (mkdir_single w p ex))"
  by (auto simp: mkdir_single_def split: sum.splits dest!: os_mkdir_frame)

lemma path_mkdir_frame:
  "files (snd (path_mkdir w p ex)) = files w
   \<and> readonly (snd (path_mkdir w p ex)) = readonly w
   \<and> workbooks (snd (path_mkdir w p ex)) = workbooks w
   \<and> today (snd (path_mkdir w p ex)) = today w
   \<and> dirs w \<subseteq> dirs (snd (path_mkdir w p ex))"
proof (induction w p ex rule: path_mkdir.induct)
  case (1 w p exist_ok)
  show ?case
  proof (cases "os_mkdir w p")
    case (Inr w')
    then show ?thesis
      by (subst (1 2 3 4 5) path_mkdir.simps) (auto dest!: os_mkdir_frame)
  next
    case (Inl e)
    show ?thesis
    proof (cases "e = FileNotFoundError \<and> p \<noteq> []")
      case True
      obtain res w' where r: "path_mkdir w (butlast p) True = (res, w')"
        by (cases "path_mkdir w (butlast p) True") auto
      from 1[OF Inl] True r have c: "files w' = files w" "readonly w' = readonly w"
        "workbooks w' = workbooks w" "today w' = today w" "dirs w \<subseteq> dirs w'"
        by simp_all
      have s: "path_mkdir w p exist_ok
               = (case res of Returned \<Rightarrow> mkdir_single w' p exist_ok | Raised e' \<Rightarrow> (Raised e', w'))"
        by (subst path_mkdir.simps) (use Inl True r in \<open>simp split: outcome.splits\<close>)
      show ?thesis
        unfolding s using c mkdir_single_frame[of w' p exist_ok]
        by (cases res) auto
    next
      case False
      have "path_mkdir w p exist_ok = (Returned, w) \<or> path_mkdir w p exist_ok = (Raised e, w)"
        by (subst (1 2) path_mkdir.simps) (use Inl False in auto)
      then show ?thesis by auto
    qed
  qed
qed

text \<open>
  Claim C7. \<^verbatim>\<open>make_dir\<close> returns the computed name in every world and raises nothing: it
  prints the two announcements and then exactly one report, which tells what became of
  the attempt to create the directory \<open>p\<close> (the run directory under \<^verbatim>\<open>runs\<close>).

  \<^item> It reports \<^emph>\<open>created\<close> only when the directory is there afterwards; no file, no
    permission, no workbook and no existing directory is ever changed.
  \<^item> When the parent of \<open>p\<close> is a directory: if \<open>p\<close> exists already the report is
    \<^emph>\<open>already exists\<close> and nothing else changes; otherwise, if nothing may be created in
    the parent, the report is \<^emph>\<open>permission denied\<close> and nothing else changes; otherwise
    \<open>p\<close> is created and the report is \<^emph>\<open>created\<close>.
  \<^item> When the parent of \<open>p\<close> is a file, or the name holds a NUL character, the error is
    reported (NotADirectoryError, ValueError) and nothing else changes.

  \<^verbatim>\<open>main\<close> then calls \<^verbatim>\<open>make_input\<close> under that name, in the world \<^verbatim>\<open>make_dir\<close> left,
  whatever the report was.
\<close>

theorem make_dir_always_returns_name:
  assumes "name = directory_name_of (today w) projectile target l s m"
    and "p = path_join runs name"
    and "announced = console w @ [Creating_directory name, To_the_path runs]"
  shows "fst (make_dir projectile target l s m runs w) = name
   \<and> (\<exists>report.
         console (snd (make_dir projectile target l s m runs w)) = announced @ [report]
       \<and> (report = Directory_created name
          \<or> report = Directory_exists name
          \<or> report = Permission_denied name
          \<or> (\<exists>e. report = Error_occurred e)))
   \<and> (console (snd (make_dir projectile target l s m runs w))
        = announced @ [Directory_created name]
      \<longrightarrow> is_dir (snd (make_dir projectile target l s m runs w)) p)
   \<and> (files (snd (make_dir projectile target l s m runs w)) = files w
      \<and> readonly (snd (make_dir projectile target l s m runs w)) = readonly w
      \<and> workbooks (snd (make_dir projectile target l s m runs w)) = workbooks w
      \<and> today (snd (make_dir projectile target l s m runs w)) = today w
      \<and> dirs w \<subseteq> dirs (snd (make_dir projectile target l s m runs w)))
   \<and> (has_nul p
      \<longrightarrow> make_dir projectile target l s m runs w
          = (name, w\<lparr>console := announced @ [Error_occurred ValueError]\<rparr>))
   \<and> (\<not> has_nul p \<and> is_file w (butlast p)
      \<longrightarrow> make_dir projectile target l s m runs w
          = (name, w\<lparr>console := announced @ [Error_occurred NotADirectoryError]\<rparr>))
   \<and> (\<not> has_nul p \<and> \<not> is_file w (butlast p) \<and> is_dir w (butlast p)
        \<and> (is_dir w p \<or> is_file w p)
      \<longrightarrow> make_dir projectile target l s m runs w
          = (name, w\<lparr>console := announced @ [Directory_exists name]\<rparr>))
   \<and> (\<not> has_nul p \<and> \<not> is_file w (butlast p) \<and> is_dir w (butlast p)
        \<and> \<not> is_dir w p \<and> \<not> is_file w p \<and> butlast p \<in> readonly w
      \<longrightarrow> make_dir projectile target l s m runs w
          = (name, w\<lparr>console := announced @ [Permission_denied name]\<rparr>))
   \<and> (\<not> has_nul p \<and> \<not> is_file w (butlast p) \<and> is_dir w (butlast p)
        \<and> \<not> is_dir w p \<and> \<not> is_file w p \<and> butlast p \<notin> readonly w
      \<longrightarrow> make_dir projectile target l s m runs w
          = (name, w\<lparr>dirs := insert p (dirs w),
                     console := announced @ [Directory_created name]\<rparr>))
   \<and> (parse_data w (path_parts (arg_data a)) = Inr (nucl_info, reactions)
       \<and> series_get (map col_Target reactions) process = Inr target'
       \<and> series_get (map col_Projectile reactions) process = Inr projectile'
       \<longrightarrow> main_process lib process a w
           = make_input lib nucl_info reactions process (arg_ldmodel a) (arg_strength a)
               (arg_massmodel a) (path_parts (arg_runs a))
               (directory_name_of (today w) projectile' target' (arg_ldmodel a) (arg_strength a)
                  (arg_massmodel a))
               (snd (make_dir projectile' target' (arg_ldmodel a) (arg_strength a)
                       (arg_massmodel a) (path_parts (arg_runs a))
                       (print (Nuclear_information nucl_info) (print (Listed_processes reactions)
                          (print (Printed projectile') (print (Printed target') w)))))))"
proof -
  let ?md = "make_dir projectile target l s m runs w"
  let ?w2 = "print (To_the_path runs) (print (Creating_directory name) w)"
  obtain res w' where r: "path_mkdir ?w2 p False = (res, w')"
    by (cases "path_mkdir ?w2 p False") auto
  have md: "?md = (name, print (report_of name res) w')"
    using make_dir_report[OF r[unfolded assms(2) assms(1)]] by (simp add: assms(1))
  have cw: "console w' = announced"
    using path_mkdir_console[of ?w2 p False] r by (simp add: print_def assms(3))
  have 1: "fst ?md = name" by (simp add: md)
  have 2: "\<exists>report. console (snd ?md) = announced @ [report]
       \<and> (report = Directory_created name
          \<or> report = Directory_exists name
          \<or> report = Permission_denied name
          \<or> (\<exists>e. report = Error_occurred e))"
    unfolding md by (cases res) (auto simp: print_def report_of_def cw)
  have 3: "console (snd ?md) = announced @ [Directory_created name] \<longrightarrow> is_dir (snd ?md) p"
  proof
    assume "console (snd ?md) = announced @ [Directory_created name]"
    then have "report_of name res = Directory_created name"
      by (simp add: md print_def cw)
    then have "res = Returned"
      by (cases res) (auto simp: report_of_def split: if_splits)
    with r have "is_dir w' p" by (simp add: path_mkdir_is_dir)
    then show "is_dir (snd ?md) p" by (simp add: md print_def is_dir_def)
  qed
  have 4: "files (snd ?md) = files w
      \<and> readonly (snd ?md) = readonly w
      \<and> workbooks (snd ?md) = workbooks w
      \<and> today (snd ?md) = today w
      \<and> dirs w \<subseteq> dirs (snd ?md)"
    using path_mkdir_frame[of ?w2 p False] r by (simp add: md print_def)
  have err: "os_mkdir w p = Inl e \<Longrightarrow> e \<noteq> FileNotFoundError
             \<Longrightarrow> ?md = (name, w\<lparr>console := announced @ [report_of name (Raised e)]\<rparr>)" for e
    using make_dir_os_error[of w runs projectile target l s m e] by (simp add: assms)
  have ok: "os_mkdir w p = Inr w'' \<Longrightarrow> w'' = w\<lparr>dirs := insert p (dirs w)\<rparr> \<Longrightarrow>
            ?md = (name, w\<lparr>dirs := insert p (dirs w),
                             console := announced @ [Directory_created name]\<rparr>)" for w''
    using make_dir_os_ok[of w runs projectile target l s m w''] by (simp add: assms)
  have 5: "has_nul p \<longrightarrow> ?md = (name, w\<lparr>console := announced @ [Error_occurred ValueError]\<rparr>)"
    using err[of ValueError] by (simp add: os_mkdir_def report_of_def)
  have 6: "\<not> has_nul p \<and> is_file w (butlast p)
      \<longrightarrow> ?md = (name, w\<lparr>console := announced @ [Error_occurred NotADirectoryError]\<rparr>)"
    using err[of NotADirectoryError] by (simp add: os_mkdir_def report_of_def)
  have 7: "\<not> has_nul p \<and> \<not> is_file w (butlast p) \<and> is_dir w (butlast p)
        \<and> (is_dir w p \<or> is_file w p)
      \<longrightarrow> ?md = (name, w\<lparr>console := announced @ [Directory_exists name]\<rparr>)"
    using err[of FileExistsError] by (auto simp: os_mkdir_def report_of_def)
  have 8: "\<not> has_nul p \<and> \<not> is_file w (butlast p) \<and> is_dir w (butlast p)
        \<and> \<not> is_dir w p \<and> \<not> is_file w p \<and> butlast p \<in> readonly w
      \<longrightarrow> ?md = (name, w\<lparr>console := announced @ [Permission_denied name]\<rparr>)"
    using err[of PermissionError] by (simp add: os_mkdir_def report_of_def)
  have 9: "\<not> has_nul p \<and> \<not> is_file w (butlast p) \<and> is_dir w (butlast p)
        \<and> \<not> is_dir w p \<and> \<not> is_file w p \<and> butlast p \<notin> readonly w
      \<longrightarrow> ?md = (name, w\<lparr>dirs := insert p (dirs w),
                           console := announced @ [Directory_created name]\<rparr>)"
    using ok[of "w\<lparr>dirs := insert p (dirs w)\<rparr>"] by (simp add: os_mkdir_def)
  have 10: "parse_data w (path_parts (arg_data a)) = Inr (nucl_info, reactions)
       \<and> series_get (map col_Target reactions) process = Inr target'
       \<and> series_get (map col_Projectile reactions) process = Inr projectile'
       \<longrightarrow> main_process lib process a w
           = make_input lib nucl_info reactions process (arg_ldmodel a) (arg_strength a)
               (arg_massmodel a) (path_parts (arg_runs a))
               (directory_name_of (today w) projectile' target' (arg_ldmodel a) (arg_strength a)
                  (arg_massmodel a))
               (snd (make_dir projectile' target' (arg_ldmodel a) (arg_strength a)
                       (arg_massmodel a) (path_parts (arg_runs a))
                       (print (Nuclear_information nucl_info) (print (Listed_processes reactions)
                          (print (Printed projectile') (print (Printed target') w))))))"
    using main_process_continues[of w a nucl_info reactions process target' projectile' lib]
    by blast
  show ?thesis
    by (rule conjI[OF 1 conjI[OF 2 conjI[OF 3 conjI[OF 4 conjI[OF 5 conjI[OF 6
          conjI[OF 7 conjI[OF 8 conjI[OF 9 10]]]]]]]]])
qed


theorem make_dir_always_returns_name_witness:
  "make_dir ''p'' ''56Ni'' 5 8 2 [''runs''] locked_world
      = (''Run-010125_p56Ni-582'',
         locked_world\<lparr>console := [Creating_directory ''Run-010125_p56Ni-582'',
                                    To_the_path [''runs''],
                                    Permission_denied ''Run-010125_p56Ni-582'']\<rparr>)
   \<and> [''runs'', ''Run-010125_p56Ni-582'']
        \<notin> dirs (snd (make_dir ''p'' ''56Ni'' 5 8 2 [''runs''] locked_world))
   \<and> parse_data locked_world (path_parts (arg_data scenario_args)) = Inr ([Ni56], [p_Ni56])
   \<and> series_get (map col_Target [p_Ni56]) 0 = Inr ''56Ni''
   \<and> series_get (map col_Projectile [p_Ni56]) 0 = Inr ''p''
   \<and> main example_lib scenario_args locked_world
      = (Raised FileNotFoundError,
         locked_world\<lparr>console :=
           [Printed ''56Ni'', Printed ''p'', Listed_processes [p_Ni56],
            Nuclear_information [Ni56], Creating_directory ''Run-010125_p56Ni-582'',
            To_the_path [''runs''], Permission_denied ''Run-010125_p56Ni-582'',
            Created_input_file ''Run-010125_p56Ni-582_input.txt'']\<rparr>)
   \<and> make_dir ''p'' ''56Ni'' 5 8 2 [''runs''] scenario_world
      = (''Run-010125_p56Ni-582'',
         scenario_world\<lparr>dirs := {[''runs'', ''Run-010125_p56Ni-582''], [''runs'']},
           console := [Creating_directory ''Run-010125_p56Ni-582'', To_the_path [''runs''],
                       Directory_created ''Run-010125_p56Ni-582'']\<rparr>)
   \<and> is_dir (snd (make_dir ''p'' ''56Ni'' 5 8 2 [''runs''] scenario_world))
        [''runs'', ''Run-010125_p56Ni-582'']
   \<and> make_dir ''p'' ''56Ni'' 5 8 2 [''runs''] run_world
      = (''Run-010125_p56Ni-582'',
         run_world\<lparr>console := [Creating_directory ''Run-010125_p56Ni-582'',
                                 To_the_path [''runs''],
                                 Directory_exists ''Run-010125_p56Ni-582'']\<rparr>)
   \<and> make_dir ''p'' ''56Ni'' 5 8 2 [''runs'']
        (scenario_world\<lparr>dirs := {}, files := [[''runs''] \<mapsto> []]\<rparr>)
      = (''Run-010125_p56Ni-582'',
         scenario_world\<lparr>dirs := {}, files := [[''runs''] \<mapsto> []],
           console := [Creating_directory ''Run-010125_p56Ni-582'', To_the_path [''runs''],
                       Error_occurred NotADirectoryError]\<rparr>)
   \<and> make_dir [CHR 0x00] ''56Ni'' 5 8 2 [''runs''] scenario_world
      = (''Run-010125_'' @ [CHR 0x00] @ ''56Ni-582'',
         scenario_world\<lparr>console :=
           [Creating_directory (''Run-010125_'' @ [CHR 0x00] @ ''56Ni-582''),
            To_the_path [''runs''], Error_occurred ValueError]\<rparr>)"
proof -
  have p: "parse_data locked_world (path_parts (arg_data scenario_args)) = Inr ([Ni56], [p_Ni56])"
    by (simp add: scenario_args_def scenario_paths parse_data_def locked_world_def
        scenario_world_def world_with_def)
  have t: "today locked_world = \<lparr>day = 1, month = 1, year = 2025\<rparr>"
    by (simp add: locked_world_def scenario_world_def world_with_def)
  have w: "print (Nuclear_information [Ni56]) (print (Listed_processes [p_Ni56])
             (print (Printed ''p'') (print (Printed ''56Ni'') locked_world)))
           = locked_world\<lparr>console := [Printed ''56Ni'', Printed ''p'',
                Listed_processes [p_Ni56], Nuclear_information [Ni56]]\<rparr>"
    by (simp add: print_def locked_world_def scenario_world_def world_with_def)
  note locked = make_dir_always_returns_name[where w = locked_world and projectile = "''p''"
      and target = "''56Ni''" and l = 5 and s = 8 and m = 2 and runs = "[''runs'']"
      and a = scenario_args and nucl_info = "[Ni56]" and reactions = "[p_Ni56]" and process = 0
      and target' = "''56Ni''" and projectile' = "''p''" and lib = example_lib,
      OF refl refl refl, unfolded t scenario_name scenario_paths]
  note denied = locked[THEN conjunct2, THEN conjunct2, THEN conjunct2, THEN conjunct2,
      THEN conjunct2, THEN conjunct2, THEN conjunct2, THEN conjunct1]
  note continues = locked[THEN conjunct2, THEN conjunct2, THEN conjunct2, THEN conjunct2,
      THEN conjunct2, THEN conjunct2, THEN conjunct2, THEN conjunct2, THEN conjunct2]
  from denied have d: "make_dir ''p'' ''56Ni'' 5 8 2 [''runs''] locked_world
      = (''Run-010125_p56Ni-582'',
         locked_world\<lparr>console := [Creating_directory ''Run-010125_p56Ni-582'',
                                    To_the_path [''runs''],
                                    Permission_denied ''Run-010125_p56Ni-582'']\<rparr>)"
    by (simp add: has_nul_def is_file_def is_dir_def locked_world_def scenario_world_def
        world_with_def)
  have n: "[''runs'', ''Run-010125_p56Ni-582'']
        \<notin> dirs (snd (make_dir ''p'' ''56Ni'' 5 8 2 [''runs''] locked_world))"
    unfolding d by (simp add: locked_world_def scenario_world_def world_with_def)
  from continues p p_Ni56_lookups
  have "main_process example_lib 0 scenario_args locked_world
        = make_input example_lib [Ni56] [p_Ni56] 0 (arg_ldmodel scenario_args)
            (arg_strength scenario_args) (arg_massmodel scenario_args)
            (path_parts (arg_runs scenario_args))
            (directory_name_of \<lparr>day = 1, month = 1, year = 2025\<rparr> ''p'' ''56Ni''
               (arg_ldmodel scenario_args) (arg_strength scenario_args)
               (arg_massmodel scenario_args))
            (snd (make_dir ''p'' ''56Ni'' (arg_ldmodel scenario_args)
                    (arg_strength scenario_args) (arg_massmodel scenario_args)
                    (path_parts (arg_runs scenario_args))
                    (print (Nuclear_information [Ni56]) (print (Listed_processes [p_Ni56])
                       (print (Printed ''p'') (print (Printed ''56Ni'') locked_world))))))"
    by blast
  then have mn: "main example_lib scenario_args locked_world
      = (Raised FileNotFoundError,
         locked_world\<lparr>console :=
           [Printed ''56Ni'', Printed ''p'', Listed_processes [p_Ni56],
            Nuclear_information [Ni56], Creating_directory ''Run-010125_p56Ni-582'',
            To_the_path [''runs''], Permission_denied ''Run-010125_p56Ni-582'',
            Created_input_file ''Run-010125_p56Ni-582_input.txt'']\<rparr>)"
    unfolding main_def scenario_args_values scenario_name w locked_make_dir snd_conv
      locked_make_input
    by simp
  note fresh = make_dir_always_returns_name[where w = scenario_world and projectile = "''p''"
      and target = "''56Ni''" and l = 5 and s = 8 and m = 2 and runs = "[''runs'']",
      OF refl refl refl, unfolded scenario_today scenario_name scenario_paths]
  note created = fresh[THEN conjunct2, THEN conjunct2, THEN conjunct2, THEN conjunct2,
      THEN conjunct2, THEN conjunct2, THEN conjunct2, THEN conjunct2, THEN conjunct1]
  note there = fresh[THEN conjunct2, THEN conjunct2, THEN conjunct1]
  from created have c: "make_dir ''p'' ''56Ni'' 5 8 2 [''runs''] scenario_world
      = (''Run-010125_p56Ni-582'',
         scenario_world\<lparr>dirs := {[''runs'', ''Run-010125_p56Ni-582''], [''runs'']},
           console := [Creating_directory ''Run-010125_p56Ni-582'', To_the_path [''runs''],
                       Directory_created ''Run-010125_p56Ni-582'']\<rparr>)"
    by (simp add: has_nul_def is_file_def is_dir_def scenario_world_def world_with_def)
  from there[unfolded c]
  have i: "is_dir (snd (make_dir ''p'' ''56Ni'' 5 8 2 [''runs''] scenario_world))
        [''runs'', ''Run-010125_p56Ni-582'']"
    unfolding c by (simp add: scenario_world_def world_with_def)
  have rt: "today run_world = \<lparr>day = 1, month = 1, year = 2025\<rparr>"
    by (simp add: run_world_def scenario_world_def world_with_def)
  note again = make_dir_always_returns_name[where w = run_world and projectile = "''p''"
      and target = "''56Ni''" and l = 5 and s = 8 and m = 2 and runs = "[''runs'']",
      OF refl refl refl, unfolded rt scenario_name scenario_paths]
  note exists = again[THEN conjunct2, THEN conjunct2, THEN conjunct2, THEN conjunct2,
      THEN conjunct2, THEN conjunct2, THEN conjunct1]
  from exists have x: "make_dir ''p'' ''56Ni'' 5 8 2 [''runs''] run_world
      = (''Run-010125_p56Ni-582'',
         run_world\<lparr>console := [Creating_directory ''Run-010125_p56Ni-582'',
                                 To_the_path [''runs''],
                                 Directory_exists ''Run-010125_p56Ni-582'']\<rparr>)"
    by (simp add: has_nul_def is_file_def is_dir_def run_world_def scenario_world_def
        world_with_def)
  have ft: "today (scenario_world\<lparr>dirs := {}, files := [[''runs''] \<mapsto> []]\<rparr>)
            = \<lparr>day = 1, month = 1, year = 2025\<rparr>"
    by (simp add: scenario_world_def world_with_def)
  note blocked = make_dir_always_returns_name[
      where w = "scenario_world\<lparr>dirs := {}, files := [[''runs''] \<mapsto> []]\<rparr>"
      and projectile = "''p''" and target = "''56Ni''" and l = 5 and s = 8 and m = 2
      and runs = "[''runs'']",
      OF refl refl refl, unfolded ft scenario_name scenario_paths]
  note not_a_directory = blocked[THEN conjunct2, THEN conjunct2, THEN conjunct2,
      THEN conjunct2, THEN conjunct2, THEN conjunct1]
  from not_a_directory have f: "make_dir ''p'' ''56Ni'' 5 8 2 [''runs'']
        (scenario_world\<lparr>dirs := {}, files := [[''runs''] \<mapsto> []]\<rparr>)
      = (''Run-010125_p56Ni-582'',
         scenario_world\<lparr>dirs := {}, files := [[''runs''] \<mapsto> []],
           console := [Creating_directory ''Run-010125_p56Ni-582'', To_the_path [''runs''],
                       Error_occurred NotADirectoryError]\<rparr>)"
    by (simp add: has_nul_def is_file_def scenario_world_def world_with_def)
  have nn: "directory_name_of \<lparr>day = 1, month = 1, year = 2025\<rparr> [CHR 0x00] ''56Ni'' 5 8 2
            = ''Run-010125_'' @ [CHR 0x00] @ ''56Ni-582''"
    by (simp add: directory_name_of_def strftime_dmy_def pad2_def show_simps)
  note nul = make_dir_always_returns_name[where w = scenario_world
      and projectile = "[CHR 0x00]" and target = "''56Ni''" and l = 5 and s = 8 and m = 2
      and runs = "[''runs'']",
      OF refl refl refl, unfolded scenario_today nn]
  note refused = nul[THEN conjunct2, THEN conjunct2, THEN conjunct2, THEN conjunct2,
      THEN conjunct1]
  from refused have v: "make_dir [CHR 0x00] ''56Ni'' 5 8 2 [''runs''] scenario_world
      = (''Run-010125_'' @ [CHR 0x00] @ ''56Ni-582'',
         scenario_world\<lparr>console :=
           [Creating_directory (''Run-010125_'' @ [CHR 0x00] @ ''56Ni-582''),
            To_the_path [''runs''], Error_occurred ValueError]\<rparr>)"
    by (simp add: has_nul_def path_join_def path_parts_def scenario_world_def world_with_def)
  from d n p p_Ni56_lookups mn c i x f v show ?thesis by simp
qed


subsection \<open>C1: the text of the input file\<close>

lemma Ni56_inf_lookups:
  "iloc0 (filter (\<lambda>r. col_Ydin r = CStr ''56Ni'') [Ni56_inf]) = Inr Ni56_inf"
  "py_int lib (col_Z Ni56_inf) = Inr 28"
  "py_int lib (col_A Ni56_inf) = Inr 56"
  by (simp_all add: Ni56_inf_def Ni56_def)

lemma Ni56_inf_rows:
  "df_me lib [Ni56_inf]
   = Inr [(Ni56_inf, Finite False 28 0, Finite False 56 0, Infinity False)]"
  by (simp add: df_me_def Ni56_inf_def Ni56_def)

lemma Ni56_inf_text:
  "write_input ''p'' 28 56 5 8 2
     (map snd [(Ni56_inf, Finite False 28 0, Finite False 56 0, Infinity False)]) []
   = (Returned, scenario_header @ ''massexcess 28 56 inf\<newline>'')"
  unfolding write_input_def header_text by (simp add: show_simps)

text \<open>
  Claim C1 says every \<^verbatim>\<open>massexcess\<close> line ends in a mass excess with exactly three
  decimal places. A mass excess that is the float infinity coerces (it is a number, not
  NaN), its row survives, and the format \<^verbatim>\<open>.3f\<close> writes it as \<^verbatim>\<open>inf\<close>.
\<close>

theorem massexcess_inf_counterexample:
  "make_input example_lib [Ni56_inf] [p_Ni56] 0 5 8 2 [''runs''] ''Run-010125_p56Ni-582''
     run_world
   = (Returned,
      run_world\<lparr>console := [Created_input_file ''Run-010125_p56Ni-582_input.txt''],
        files := [scenario_path \<mapsto> scenario_header @ ''massexcess 28 56 inf\<newline>'']\<rparr>)
   \<and> \<not> three_decimals ''inf''"
proof -
  have "make_input example_lib [Ni56_inf] [p_Ni56] 0 5 8 2 [''runs''] ''Run-010125_p56Ni-582''
          (run_world\<lparr>console := []\<rparr>)
        = (Returned,
           run_world\<lparr>console := [] @ [Created_input_file ''Run-010125_p56Ni-582_input.txt''],
             files := [scenario_path \<mapsto> scenario_header @ ''massexcess 28 56 inf\<newline>'']\<rparr>)"
    by (rule make_input_run_world[OF p_Ni56_lookups Ni56_inf_lookups Ni56_inf_rows
          Ni56_inf_text]) simp
  moreover have "\<not> three_decimals ''inf''"
    by (simp add: three_decimals_def is_digit_def)
  ultimately show ?thesis by (simp add: run_world_console)
qed

lemma as_double_Finite: "finite_float (as_double (Finite neg m e))"
  by (simp add: as_double_def Let_def)

lemma as_double_Infinity: "as_double (Infinity neg) = Infinity neg"
  by (simp add: as_double_def)

lemma massexcess_shape:
  assumes "coerces lib r"
  shows "case numeric lib (col_MEJYFL r) of
           Finite neg mant ex \<Rightarrow>
             three_decimals (format_3f (as_double (numeric lib (col_MEJYFL r))))
         | Infinity neg \<Rightarrow>
             format_3f (as_double (numeric lib (col_MEJYFL r)))
             = (if neg then ''-inf'' else ''inf'')
         | NaN \<Rightarrow> False"
proof (cases "numeric lib (col_MEJYFL r)")
  case (Finite neg m e)
  obtain neg' m' e' where "as_double (Finite neg m e) = Finite neg' m' e'"
    using as_double_Finite[of neg m e] by (cases "as_double (Finite neg m e)") auto
  then show ?thesis by (simp add: Finite format_3f_Finite del: format_3f.simps)
next
  case (Infinity neg)
  then show ?thesis by (simp add: as_double_Infinity)
next
  case NaN
  with assms show ?thesis by (simp add: coerces_def)
qed

text \<open>
  Claim C1, amended. Take a table in which the Z and the A of every row coerce to doubles
  (\<open>double_columns\<close>). Whenever \<^verbatim>\<open>make_input\<close> returns, the reaction, its target row and
  the integers Z and A of that row were found, and the input file holds exactly the
  sixteen lines energy 0.1, projectile, element, mass, ldmodel, strength, massmodel,
  astro y, transeps 1e-25, xseps 1e-25, popeps 1e-25, gnorm y, outlevels y, outdensity y,
  outgamma y, expmass y, each a key, one space, the value and a newline, in this order,
  followed by one line \<^verbatim>\<open>massexcess Z A ME\<close> for every row whose Z, A and MEJYFL coerce,
  in table order. In these lines Z and A are finite and written as integers, and ME is
  the double nearest to the mass excess (\<^verbatim>\<open>float(ME)\<close>): a finite one is written with
  exactly three decimal places, an infinite one as \<^verbatim>\<open>inf\<close> or \<^verbatim>\<open>-inf\<close>.
\<close>

theorem make_input_text:
  assumes "double_columns lib nucl_info"
    and "make_input lib nucl_info reactions process l s m runs run_dir_name w = (Returned, w')"
  shows "(\<exists>target projectile row Z_target A_target.
            series_get (map col_Target reactions) process = Inr target
          \<and> series_get (map col_Projectile reactions) process = Inr projectile
          \<and> iloc0 (filter (\<lambda>r. col_Ydin r = CStr target) nucl_info) = Inr row
          \<and> py_int lib (col_Z row) = Inr Z_target
          \<and> py_int lib (col_A row) = Inr A_target
          \<and> files w' (input_path_of runs run_dir_name)
              = Some (concat (map key_value_line
                        [(''energy'', ''0.1''),
                         (''projectile'', projectile),
                         (''element'', show_int Z_target),
                         (''mass'', show_int A_target),
                         (''ldmodel'', show_int l),
                         (''strength'', show_int s),
                         (''massmodel'', show_int m),
                         (''astro'', ''y''),
                         (''transeps'', ''1e-25''),
                         (''xseps'', ''1e-25''),
                         (''popeps'', ''1e-25''),
                         (''gnorm'', ''y''),
                         (''outlevels'', ''y''),
                         (''outdensity'', ''y''),
                         (''outgamma'', ''y''),
                         (''expmass'', ''y'')])
                      @ concat (map (massexcess_line lib) (filter (coerces lib) nucl_info))))
         \<and> list_all (\<lambda>r. finite_float (numeric lib (col_Z r))
                          \<and> finite_float (numeric lib (col_A r))
                          \<and> (case numeric lib (col_MEJYFL r) of
                               Finite neg mant ex \<Rightarrow>
                                 three_decimals
                                   (format_3f (as_double (numeric lib (col_MEJYFL r))))
                             | Infinity neg \<Rightarrow>
                                 format_3f (as_double (numeric lib (col_MEJYFL r)))
                                 = (if neg then ''-inf'' else ''inf'')
                             | NaN \<Rightarrow> False))
              (filter (coerces lib) nucl_info)
         \<and> three_decimals (format_3f (Finite neg mant ex))
         \<and> format_3f (Infinity neg) = (if neg then ''-inf'' else ''inf'')"
proof -
  from make_input_Returned[OF assms(2)] obtain target projectile row Z_target A_target where
    lk: "series_get (map col_Target reactions) process = Inr target"
        "series_get (map col_Projectile reactions) process = Inr projectile"
        "iloc0 (filter (\<lambda>r. col_Ydin r = CStr target) nucl_info) = Inr row"
        "py_int lib (col_Z row) = Inr Z_target"
        "py_int lib (col_A row) = Inr A_target"
    and f: "files w' (input_path_of runs run_dir_name)
            = Some (documented_text lib nucl_info projectile Z_target A_target l s m)"
    and fin: "list_all (\<lambda>r. finite_float (numeric lib (col_Z r))
                          \<and> finite_float (numeric lib (col_A r)))
              (filter (coerces lib) nucl_info)"
    by blast
  note f' = f[unfolded documented_text_def documented_keys_def]
  have inf: "format_3f (Infinity neg) = (if neg then ''-inf'' else ''inf'')" by simp
  from lk f' have 1: "\<exists>target projectile row Z_target A_target.
            series_get (map col_Target reactions) process = Inr target
          \<and> series_get (map col_Projectile reactions) process = Inr projectile
          \<and> iloc0 (filter (\<lambda>r. col_Ydin r = CStr target) nucl_info) = Inr row
          \<and> py_int lib (col_Z row) = Inr Z_target
          \<and> py_int lib (col_A row) = Inr A_target
          \<and> files w' (input_path_of runs run_dir_name)
              = Some (concat (map key_value_line
                        [(''energy'', ''0.1''),
                         (''projectile'', projectile),
                         (''element'', show_int Z_target),
                         (''mass'', show_int A_target),
                         (''ldmodel'', show_int l),
                         (''strength'', show_int s),
                         (''massmodel'', show_int m),
                         (''astro'', ''y''),
                         (''transeps'', ''1e-25''),
                         (''xseps'', ''1e-25''),
                         (''popeps'', ''1e-25''),
                         (''gnorm'', ''y''),
                         (''outlevels'', ''y''),
                         (''outdensity'', ''y''),
                         (''outgamma'', ''y''),
                         (''expmass'', ''y'')])
                      @ concat (map (massexcess_line lib) (filter (coerces lib) nucl_info)))"
    by blast
  have 2: "list_all (\<lambda>r. finite_float (numeric lib (col_Z r))
                          \<and> finite_float (numeric lib (col_A r))
                          \<and> (case numeric lib (col_MEJYFL r) of
                               Finite neg mant ex \<Rightarrow>
                                 three_decimals
                                   (format_3f (as_double (numeric lib (col_MEJYFL r))))
                             | Infinity neg \<Rightarrow>
                                 format_3f (as_double (numeric lib (col_MEJYFL r)))
                                 = (if neg then ''-inf'' else ''inf'')
                             | NaN \<Rightarrow> False))
              (filter (coerces lib) nucl_info)"
    using fin massexcess_shape[of lib] unfolding list_all_iff by auto
  from 1 2 format_3f_Finite[of neg mant ex] inf show ?thesis by blast
qed

lemma big_float:
  "py_float (Finite False 9007199254740993 0) = Inr (Finite False 4503599627370496 1)"
  by (simp add: bit_length.simps Let_def)

lemma Ni56_big_lookups:
  "iloc0 (filter (\<lambda>r. col_Ydin r = CStr ''56Ni'') [Ni56_big]) = Inr Ni56_big"
  "py_int lib (col_Z Ni56_big) = Inr 28"
  "py_int lib (col_A Ni56_big) = Inr 56"
  by (simp_all add: Ni56_big_def Ni56_def)

lemma Ni56_big_rows:
  "df_me lib [Ni56_big]
   = Inr [(Ni56_big, Finite False 28 0, Finite False 56 0, Finite False 9007199254740993 0)]"
  by (simp add: df_me_def Ni56_big_def Ni56_def big_float py_float_double del: py_float.simps)

lemma Ni56_big_text:
  "write_input ''p'' 28 56 5 8 2
     (map snd [(Ni56_big, Finite False 28 0, Finite False 56 0,
                Finite False 9007199254740993 0)]) []
   = (Returned, scenario_header @ ''massexcess 28 56 9007199254740992.000\<newline>'')"
  unfolding write_input_def header_text
  by (simp add: big_float py_float_double show_simps round_thousandths_def pad3_def Let_def
        del: py_float.simps)

theorem make_input_text_witness:
  "double_columns example_lib [Ni56_big]
   \<and> make_input example_lib [Ni56_big] [p_Ni56] 0 5 8 2 [''runs''] ''Run-010125_p56Ni-582''
       run_world
     = (Returned, run_world\<lparr>console := [Created_input_file ''Run-010125_p56Ni-582_input.txt''],
          files := [scenario_path \<mapsto>
            scenario_header @ ''massexcess 28 56 9007199254740992.000\<newline>'']\<rparr>)
   \<and> massexcess_line example_lib Ni56_big = ''massexcess 28 56 9007199254740992.000\<newline>''
   \<and> finite_float (numeric example_lib (col_Z Ni56_big))
   \<and> three_decimals (format_3f (as_double (numeric example_lib (col_MEJYFL Ni56_big))))"
proof -
  have n: "numeric example_lib (col_Z Ni56_big) = Finite False 28 0"
    "numeric example_lib (col_A Ni56_big) = Finite False 56 0"
    "numeric example_lib (col_MEJYFL Ni56_big) = Finite False 9007199254740993 0"
    by (simp_all add: numeric_def Ni56_big_def Ni56_def big_float py_float_double del: py_float.simps)
  have 0: "double_columns example_lib [Ni56_big]"
    by (simp add: double_columns_def double_cell_def coercible_cell_def Ni56_big_def Ni56_def
        big_float py_float_double del: py_float.simps)
  have 1: "make_input example_lib [Ni56_big] [p_Ni56] 0 5 8 2 [''runs'']
             ''Run-010125_p56Ni-582'' run_world
           = (Returned, run_world\<lparr>console := [Created_input_file ''Run-010125_p56Ni-582_input.txt''],
                files := [scenario_path \<mapsto>
                  scenario_header @ ''massexcess 28 56 9007199254740992.000\<newline>'']\<rparr>)"
    using make_input_run_world[OF p_Ni56_lookups Ni56_big_lookups Ni56_big_rows Ni56_big_text,
        of example_lib "[]"]
    by (simp add: run_world_console)
  have c: "filter (coerces example_lib) [Ni56_big] = [Ni56_big]"
    by (simp add: coerces_def n)
  have 2: "massexcess_line example_lib Ni56_big
           = ''massexcess 28 56 9007199254740992.000\<newline>''"
    unfolding massexcess_line_def n
    by (simp add: key_value_line_def truncated_def as_double_def big_float show_simps
        round_thousandths_def pad3_def Let_def del: py_float.simps)
  from make_input_text[OF 0 1, of True 7585750622352179 "- 47"]
  have "finite_float (numeric example_lib (col_Z Ni56_big))
        \<and> three_decimals (format_3f (as_double (numeric example_lib (col_MEJYFL Ni56_big))))"
    unfolding c by (simp add: n)
  with 0 1 2 show ?thesis by simp
qed


subsection \<open>C2: the rows that reach the file\<close>

text \<open>
  Claim C2 says a row whose Z, A or mass excess fails coercion raises no error. For the
  first row that carries the target symbol that is not so: its Z and A go through
  \<^verbatim>\<open>int\<close> before the frame is filtered, and a Z that is the text \<^verbatim>\<open>N/A\<close> makes
  \<^verbatim>\<open>make_input\<close> raise ValueError.
\<close>

theorem coercion_failure_counterexample:
  "\<not> coerces example_lib Ni56_na
   \<and> make_input example_lib [Ni56_na] [p_Ni56] 0 5 8 2 [''runs''] ''Run-010125_p56Ni-582''
        run_world
      = (Raised ValueError, run_world)"
proof -
  have r: "iloc0 (filter (\<lambda>r. col_Ydin r = CStr ''56Ni'') [Ni56_na]) = Inr Ni56_na"
    by (simp add: Ni56_na_def Ni56_def)
  have z: "py_int example_lib (col_Z Ni56_na) = Inl ValueError"
    by (simp add: Ni56_na_def example_lib_def not_a_number)
  have c: "\<not> coerces example_lib Ni56_na"
    by (simp add: coerces_def numeric_def Ni56_na_def example_lib_def not_a_number)
  have "make_input example_lib [Ni56_na] [p_Ni56] 0 5 8 2 [''runs''] ''Run-010125_p56Ni-582''
             run_world
           = (Raised ValueError, run_world)"
    unfolding make_input_cases using p_Ni56_lookups r z by simp
  with c show ?thesis by simp
qed

lemma make_input_without_row:
  assumes "double_columns lib (t1 @ r # t2)"
    and "\<not> coerces lib r"
    and "series_get (map col_Target reactions) process = Inr target"
    and "col_Ydin r \<noteq> CStr target \<or> list_ex (\<lambda>r'. col_Ydin r' = CStr target) t1"
  shows "make_input lib (t1 @ r # t2) reactions process l s m runs run_dir_name w
         = make_input lib (t1 @ t2) reactions process l s m runs run_dir_name w"
proof -
  from df_me_double_columns[OF assms(1)] obtain rows where
    rows: "df_me lib (t1 @ r # t2) = Inr rows"
    by blast
  from df_me_without_row[OF rows assms(2)] obtain rows' where
    rows': "df_me lib (t1 @ t2) = Inr rows'" and same: "map snd rows' = map snd rows"
    by blast
  show ?thesis
    unfolding make_input_used assms(3) sum.case target_row_without_row[OF assms(4)] rows rows'
      map_sum.simps same ..
qed

text \<open>
  Claim C2, amended. Take a table in which the Z and the A of every row coerce to doubles
  and no mass excess is an integer beyond the doubles (\<open>double_columns\<close>).

  \<^item> Building the frame of mass excesses raises nothing, and the frame holds exactly the
    rows whose Z, A and MEJYFL all coerce, once each and in table order.
  \<^item> Whenever \<^verbatim>\<open>make_input\<close> returns, the file holds, after the sixteen header lines,
    exactly one \<^verbatim>\<open>massexcess\<close> line for each of these rows, in table order, and none for
    any other row.
  \<^item> A row that fails coercion is skipped in silence, unless it is the first row that
    carries the target symbol (whose Z and A go through \<^verbatim>\<open>int\<close> before the filter):
    taking such a row out of the table changes nothing, neither the outcome of
    \<^verbatim>\<open>make_input\<close> (returned or raised, and which error) nor the world it leaves.
\<close>

theorem massexcess_rows:
  "(double_columns lib nucl_info
      \<longrightarrow> (\<exists>rows. df_me lib nucl_info = Inr rows
                 \<and> map fst rows = filter (coerces lib) nucl_info))
   \<and> (double_columns lib nucl_info
        \<and> make_input lib nucl_info reactions process l s m runs run_dir_name w = (Returned, w')
      \<longrightarrow> (\<exists>projectile Z_target A_target.
             files w' (input_path_of runs run_dir_name)
             = Some (concat (header_writes projectile Z_target A_target l s m)
                     @ concat (map (massexcess_line lib) (filter (coerces lib) nucl_info)))))
   \<and> (double_columns lib (t1 @ r # t2)
        \<and> \<not> coerces lib r
        \<and> series_get (map col_Target reactions) process = Inr target
        \<and> (col_Ydin r \<noteq> CStr target \<or> list_ex (\<lambda>r'. col_Ydin r' = CStr target) t1)
      \<longrightarrow> make_input lib (t1 @ r # t2) reactions process l s m runs run_dir_name w
          = make_input lib (t1 @ t2) reactions process l s m runs run_dir_name w)"
proof -
  have 1: "double_columns lib nucl_info
      \<longrightarrow> (\<exists>rows. df_me lib nucl_info = Inr rows
                 \<and> map fst rows = filter (coerces lib) nucl_info)"
    using df_me_double_columns[of lib nucl_info] df_me_fst[of lib nucl_info] by blast
  have 2: "double_columns lib nucl_info
        \<and> make_input lib nucl_info reactions process l s m runs run_dir_name w = (Returned, w')
      \<longrightarrow> (\<exists>projectile Z_target A_target.
             files w' (input_path_of runs run_dir_name)
             = Some (concat (header_writes projectile Z_target A_target l s m)
                     @ concat (map (massexcess_line lib) (filter (coerces lib) nucl_info))))"
    using make_input_Returned[of lib nucl_info reactions process l s m runs run_dir_name w w']
    unfolding documented_text_def header_documented by blast
  have 3: "double_columns lib (t1 @ r # t2)
        \<and> \<not> coerces lib r
        \<and> series_get (map col_Target reactions) process = Inr target
        \<and> (col_Ydin r \<noteq> CStr target \<or> list_ex (\<lambda>r'. col_Ydin r' = CStr target) t1)
      \<longrightarrow> make_input lib (t1 @ r # t2) reactions process l s m runs run_dir_name w
          = make_input lib (t1 @ t2) reactions process l s m runs run_dir_name w"
    using make_input_without_row[of lib t1 r t2 reactions process target l s m runs
        run_dir_name w]
    by blast
  show ?thesis by (rule conjI[OF 1 conjI[OF 2 3]])
qed

lemma three_rows:
  "filter (coerces example_lib) [Ni56, Ni57_na, Ni58] = [Ni56, Ni58]"
  by (simp add: coerces_def numeric_def Ni56_def Ni57_na_def Ni58_def example_lib_def
      not_a_number)

lemma three_rows_lookups:
  "iloc0 (filter (\<lambda>r. col_Ydin r = CStr ''56Ni'') [Ni56, Ni57_na, Ni58]) = Inr Ni56"
  by (simp add: Ni56_def Ni57_na_def Ni58_def)

lemma three_rows_frame:
  "df_me example_lib [Ni56, Ni57_na, Ni58]
   = Inr [(Ni56, Finite False 28 0, Finite False 56 0, Finite True 7585750622352179 (- 47)),
          (Ni58, Finite False 28 0, Finite False 58 0, Finite True 60 0)]"
  by (simp add: df_me_def Ni56_def Ni57_na_def Ni58_def example_lib_def not_a_number)

lemma three_rows_text:
  "write_input ''p'' 28 56 5 8 2
     (map snd [(Ni56, Finite False 28 0, Finite False 56 0,
                Finite True 7585750622352179 (- 47)),
               (Ni58, Finite False 28 0, Finite False 58 0, Finite True 60 0)]) []
   = (Returned, scenario_header @ ''massexcess 28 56 -53.900\<newline>''
                  @ ''massexcess 28 58 -60.000\<newline>'')"
  unfolding write_input_def header_text
  by (simp add: show_simps round_thousandths_def pad3_def Let_def)

theorem massexcess_rows_witness:
  "double_columns example_lib [Ni56, Ni57_na, Ni58]
   \<and> \<not> coerces example_lib Ni57_na
   \<and> series_get (map col_Target [p_Ni56]) 0 = Inr ''56Ni''
   \<and> col_Ydin Ni57_na \<noteq> CStr ''56Ni''
   \<and> make_input example_lib [Ni56, Ni57_na, Ni58] [p_Ni56] 0 5 8 2 [''runs'']
       ''Run-010125_p56Ni-582'' run_world
     = (Returned,
        run_world\<lparr>console := [Created_input_file ''Run-010125_p56Ni-582_input.txt''],
          files := [scenario_path \<mapsto> scenario_header @ ''massexcess 28 56 -53.900\<newline>''
                                        @ ''massexcess 28 58 -60.000\<newline>'']\<rparr>)
   \<and> make_input example_lib [Ni56, Ni58] [p_Ni56] 0 5 8 2 [''runs'']
       ''Run-010125_p56Ni-582'' run_world
     = (Returned,
        run_world\<lparr>console := [Created_input_file ''Run-010125_p56Ni-582_input.txt''],
          files := [scenario_path \<mapsto> scenario_header @ ''massexcess 28 56 -53.900\<newline>''
                                        @ ''massexcess 28 58 -60.000\<newline>'']\<rparr>)
   \<and> (\<exists>rows. df_me example_lib [Ni56, Ni57_na, Ni58] = Inr rows
              \<and> map fst rows = [Ni56, Ni58])
   \<and> (\<exists>projectile Z_target A_target.
         scenario_header @ ''massexcess 28 56 -53.900\<newline>'' @ ''massexcess 28 58 -60.000\<newline>''
         = concat (header_writes projectile Z_target A_target 5 8 2)
           @ massexcess_line example_lib Ni56 @ massexcess_line example_lib Ni58)"
proof -
  have 0: "double_columns example_lib [Ni56, Ni57_na, Ni58]"
    by (simp add: double_columns_def double_cell_def coercible_cell_def Ni56_def Ni57_na_def
        Ni58_def example_lib_def not_a_number)
  have 1: "make_input example_lib [Ni56, Ni57_na, Ni58] [p_Ni56] 0 5 8 2 [''runs'']
     ''Run-010125_p56Ni-582'' run_world
   = (Returned,
      run_world\<lparr>console := [Created_input_file ''Run-010125_p56Ni-582_input.txt''],
        files := [scenario_path \<mapsto> scenario_header @ ''massexcess 28 56 -53.900\<newline>''
                                      @ ''massexcess 28 58 -60.000\<newline>'']\<rparr>)"
    using make_input_run_world[OF p_Ni56_lookups three_rows_lookups Ni56_lookups(2,3)
          three_rows_frame three_rows_text, of "[]"]
    by (simp add: run_world_console)
  have 2: "\<not> coerces example_lib Ni57_na"
    by (simp add: coerces_def numeric_def Ni57_na_def example_lib_def not_a_number)
  have 3: "col_Ydin Ni57_na \<noteq> CStr ''56Ni''"
    by (simp add: Ni57_na_def)
  note t = massexcess_rows[where lib = example_lib and nucl_info = "[Ni56, Ni57_na, Ni58]"
      and ?t1.0 = "[Ni56]" and r = Ni57_na and ?t2.0 = "[Ni58]" and reactions = "[p_Ni56]"
      and process = 0 and target = "''56Ni''" and l = 5 and s = 8 and m = 2
      and runs = "[''runs'']" and run_dir_name = "''Run-010125_p56Ni-582''" and w = run_world
      and w' = "run_world\<lparr>console := [Created_input_file ''Run-010125_p56Ni-582_input.txt''],
          files := [scenario_path \<mapsto> scenario_header @ ''massexcess 28 56 -53.900\<newline>''
                                        @ ''massexcess 28 58 -60.000\<newline>'']\<rparr>"]
  from t[THEN conjunct1] 0
  have 4: "\<exists>rows. df_me example_lib [Ni56, Ni57_na, Ni58] = Inr rows
              \<and> map fst rows = [Ni56, Ni58]"
    unfolding three_rows by blast
  from t[THEN conjunct2, THEN conjunct1] 0 1
  have 5: "\<exists>projectile Z_target A_target.
         scenario_header @ ''massexcess 28 56 -53.900\<newline>'' @ ''massexcess 28 58 -60.000\<newline>''
         = concat (header_writes projectile Z_target A_target 5 8 2)
           @ massexcess_line example_lib Ni56 @ massexcess_line example_lib Ni58"
    unfolding three_rows scenario_input_path by simp
  from t[THEN conjunct2, THEN conjunct2] 0 2 3 p_Ni56_lookups(1)
  have "make_input example_lib [Ni56, Ni57_na, Ni58] [p_Ni56] 0 5 8 2 [''runs'']
          ''Run-010125_p56Ni-582'' run_world
        = make_input example_lib [Ni56, Ni58] [p_Ni56] 0 5 8 2 [''runs'']
            ''Run-010125_p56Ni-582'' run_world"
    by simp
  with 1 have 6: "make_input example_lib [Ni56, Ni58] [p_Ni56] 0 5 8 2 [''runs'']
       ''Run-010125_p56Ni-582'' run_world
     = (Returned,
        run_world\<lparr>console := [Created_input_file ''Run-010125_p56Ni-582_input.txt''],
          files := [scenario_path \<mapsto> scenario_header @ ''massexcess 28 56 -53.900\<newline>''
                                        @ ''massexcess 28 58 -60.000\<newline>'']\<rparr>)"
    by simp
  from 0 2 p_Ni56_lookups(1) 3 1 6 4 5 show ?thesis by blast
qed

end
